theory Spec2Isabelle
  imports Complex_Main
begin

section \<open>Values, messages and exceptions\<close>

text \<open>
  The pipeline is Python over two PostgreSQL databases and one HTTP source. A JSON value
  is what \<^verbatim>\<open>response.json()\<close> returns; a Python dict read from JSON is an
  association list (keys are distinct after parsing).
\<close>

datatype json =
    JNull
  | JBool bool
  | JInt int
  | JFloat rat
  | JStr string
  | JArr "json list"
  | JObj "(string \<times> json) list"

text \<open>Python exceptions by class; \<open>SystemExit\<close> carries the exit status.\<close>

datatype exn =
    RequestException
  | ValueError
  | TypeError
  | KeyError
  | IndexError
  | AttributeError
  | SystemExit int

text \<open>\<^verbatim>\<open>except Exception\<close> catches everything but \<open>SystemExit\<close> (a \<open>BaseException\<close>).\<close>

fun is_Exception :: "exn \<Rightarrow> bool" where
  "is_Exception (SystemExit n) = False"
| "is_Exception e = True"

text \<open>
  An f-string is kept as its template and the values it interpolates, in order: the
  template \<^verbatim>\<open>f"status {code}: Not Found"\<close> with \<open>code = 404\<close> is
  \<open>(''status {}: Not Found'', [AInt 404])\<close>. A plain string has no values.
\<close>

datatype fmt_arg =
  AInt int | ARat rat | AStr string | AStrs "string list" | AJson json | AExn exn

type_synonym message = "string \<times> fmt_arg list"

definition lit :: "string \<Rightarrow> message" where
  "lit s = (s, [])"

section \<open>The databases, the log file and the engine's counters\<close>

text \<open>
  Table \<^verbatim>\<open>api_calls\<close>: the columns the governor's queries read, and the retry count.
  Times are whole seconds since the epoch (the code stores
  \<^verbatim>\<open>int(datetime.now().timestamp())\<close>).
\<close>

record api_call =
  call_timestamp :: int
  call_type_id :: int
  response_code :: int
  retry_count :: nat

text \<open>Table \<^verbatim>\<open>api_call_types\<close>.\<close>

record api_call_type_row =
  type_id :: int
  type_platform :: string
  type_name :: string
  api_call_prototype :: string

text \<open>
  Table \<^verbatim>\<open>api_script_tracking\<close>, one row per (script_name, platform,
  api_call_alt_name): the conflict target of the upsert. The column
  \<^verbatim>\<open>daily_limit_reached\<close> is not written by the upsert's INSERT, so a fresh row holds
  the schema's default, which is not part of the sources: \<open>None\<close> stands for it.
\<close>

record tracking_row =
  status :: message
  previous_status :: "message option"
  last_checked :: int
  requests_made_today :: int
  daily_limit_reached :: "bool option"
  stopped_reason :: "message option"
  force_restart :: bool

type_synonym tracking_key = "string \<times> string \<times> string"

text \<open>Table \<^verbatim>\<open>sql_handling\<close>: one row per store outcome.\<close>

record sql_handling_row =
  sql_api_call_id :: "nat option"
  insert_status :: message
  sql_error_message :: "message option"

text \<open>A validated daily summary (the dict \<^verbatim>\<open>validated_data\<close>), also a row of \<^verbatim>\<open>daily_summary_data\<close>.\<close>

record daily_record =
  d_lat :: json
  d_lon :: json
  d_tzoff :: int
  d_date :: int
  d_units :: json
  cloud_cover_afternoon :: json
  humidity_afternoon :: json
  precipitation_total :: json
  temperature_min :: json
  temperature_max :: json
  temperature_afternoon :: json
  temperature_night :: json
  temperature_evening :: json
  temperature_morning :: json
  pressure_afternoon :: json
  wind_max_speed :: json
  wind_max_direction :: json

text \<open>A validated hourly observation, and a row of \<^verbatim>\<open>hourly_data\<close> (with its location).\<close>

record hourly_record =
  h_dt :: json
  h_lat :: json
  h_lon :: json
  h_timezone :: json
  h_timezone_offset :: json
  h_sunrise :: json
  h_sunset :: json
  h_temp :: json
  h_feels_like :: json
  h_pressure :: json
  h_humidity :: json
  h_dew_point :: json
  h_visibility :: json
  h_description :: json
  h_clouds :: json
  h_wind_speed :: json
  h_wind_deg :: json

record hourly_row =
  row_data :: hourly_record
  location_id :: int

text \<open>
  Everything a run reads and writes: the logging database, the weather database, the log
  file (event and message of each line), the batch files written, the lines printed, the
  number of gap queries executed and of HTTP requests sent so far, and the engine
  object's three counters.
\<close>

record world =
  api_calls :: "api_call list"
  api_call_types :: "api_call_type_row list"
  api_script_tracking :: "tracking_key \<rightharpoonup> tracking_row"
  sql_handling :: "sql_handling_row list"
  log_file :: "(string \<times> message) list"
  daily_summary_data :: "daily_record list"
  hourly_data :: "hourly_row list"
  batch_files :: "json list list"
  stdout :: "message list"
  gap_queries :: nat
  requests_sent :: nat
  failed_requests :: nat
  failed_sql_inserts :: nat
  batch_call_requests :: nat

section \<open>APILogging\<close>

definition log_event :: "string \<Rightarrow> message \<Rightarrow> world \<Rightarrow> world" where
  "log_event event msg w = w\<lparr>log_file := log_file w @ [(event, msg)]\<rparr>"

text \<open>
  \<^verbatim>\<open>insert_tracking_log\<close>: read the previous status, then
  \<^verbatim>\<open>INSERT ... ON CONFLICT (script_name, platform, api_call_alt_name) DO UPDATE\<close> of
  status, previous_status, last_checked, stopped_reason and force_restart. A new row
  gets \<^verbatim>\<open>requests_made_today = 0\<close>.
\<close>

definition insert_tracking_log ::
  "int \<Rightarrow> string \<Rightarrow> string \<Rightarrow> string \<Rightarrow> message \<Rightarrow> message option \<Rightarrow> bool \<Rightarrow> world \<Rightarrow> world" where
  "insert_tracking_log now script plat alt st reason force w =
     (let k = (script, plat, alt);
          prev = (case api_script_tracking w k of None \<Rightarrow> None | Some r \<Rightarrow> Some (status r));
          row = (case api_script_tracking w k of
                   None \<Rightarrow> \<lparr>status = st, previous_status = prev, last_checked = now,
                            requests_made_today = 0, daily_limit_reached = None,
                            stopped_reason = reason, force_restart = force\<rparr>
                 | Some r \<Rightarrow> r\<lparr>status := st, previous_status := prev, last_checked := now,
                              stopped_reason := reason, force_restart := force\<rparr>)
      in w\<lparr>api_script_tracking := (api_script_tracking w)(k \<mapsto> row)\<rparr>)"

text \<open>\<^verbatim>\<open>log_api_call\<close>: insert one row and return its serial id (the rows are never deleted).\<close>

definition log_api_call :: "int \<Rightarrow> int \<Rightarrow> int \<Rightarrow> nat \<Rightarrow> world \<Rightarrow> nat \<times> world" where
  "log_api_call ts tid code retries w =
     (Suc (length (api_calls w)),
      w\<lparr>api_calls := api_calls w @
           [\<lparr>call_timestamp = ts, call_type_id = tid, response_code = code, retry_count = retries\<rparr>]\<rparr>)"

text \<open>\<^verbatim>\<open>get_api_prototype\<close>: the first matching row, or \<open>ValueError\<close> (logged, then re-raised).\<close>

definition get_api_prototype :: "string \<Rightarrow> string \<Rightarrow> world \<Rightarrow> (exn + string) \<times> world" where
  "get_api_prototype plat tname w =
     (case filter (\<lambda>t. type_platform t = plat \<and> type_name t = tname) (api_call_types w) of
        t # _ \<Rightarrow> (Inr (api_call_prototype t), w)
      | [] \<Rightarrow> (Inl ValueError, log_event ''Database Error'' (''{}'', [AExn ValueError]) w))"

definition log_sql_insert :: "nat option \<Rightarrow> message \<Rightarrow> message option \<Rightarrow> world \<Rightarrow> world" where
  "log_sql_insert cid st err w =
     w\<lparr>sql_handling := sql_handling w @
          [\<lparr>sql_api_call_id = cid, insert_status = st, sql_error_message = err\<rparr>]\<rparr>"

definition handle_sql_failure :: "nat option \<Rightarrow> message \<Rightarrow> world \<Rightarrow> world" where
  "handle_sql_failure cid err w =
     log_sql_insert cid (lit ''failure'') (Some err) (log_event ''data_validation_failure'' err w)"

section \<open>APIControl: the quota and rate governor\<close>

record control =
  api_call_type_id :: int
  script_name :: string
  platform :: string
  api_call_alt_name :: string
  daily_limit :: int

definition tracking_key_of :: "control \<Rightarrow> tracking_key" where
  "tracking_key_of c = (script_name c, platform c, api_call_alt_name c)"

text \<open>\<^verbatim>\<open>UPDATE api_script_tracking SET ... WHERE\<close> the key: changes the row if there is one.\<close>

definition update_tracking :: "tracking_key \<Rightarrow> (tracking_row \<Rightarrow> tracking_row) \<Rightarrow> world \<Rightarrow> world" where
  "update_tracking k f w =
     (case api_script_tracking w k of
        None \<Rightarrow> w
      | Some r \<Rightarrow> w\<lparr>api_script_tracking := (api_script_tracking w)(k \<mapsto> f r)\<rparr>)"

text \<open>The most recent UTC midnight, \<^verbatim>\<open>utcnow().replace(hour=0, minute=0, second=0, microsecond=0)\<close>.\<close>

definition reset_time_utc :: "int \<Rightarrow> int" where
  "reset_time_utc now = now - now mod 86400"

definition requests_today :: "control \<Rightarrow> int \<Rightarrow> world \<Rightarrow> nat" where
  "requests_today c now w =
     length (filter (\<lambda>r. call_type_id r = api_call_type_id c \<and> reset_time_utc now \<le> call_timestamp r)
               (api_calls w))"

definition check_daily_limit_reached :: "control \<Rightarrow> int \<Rightarrow> world \<Rightarrow> bool \<times> world" where
  "check_daily_limit_reached c now w =
     (let n = requests_today c now w;
          w1 = log_event ''Daily Request Check'' (''Requests made today: {}'', [AInt (int n)]) w
      in if daily_limit c \<le> int n then
           (True,
            log_event ''Daily Limit'' (lit ''Daily API limit reached. No further processing for today.'')
              (insert_tracking_log now (script_name c) (platform c) (api_call_alt_name c)
                 (lit ''stopped-warn'') (Some (lit ''Daily limit reached'')) False
                 (update_tracking (tracking_key_of c)
                    (\<lambda>r. r\<lparr>daily_limit_reached := Some True, last_checked := now\<rparr>) w1)))
         else if n = 0 then
           (False,
            log_event ''Daily Limit Reset'' (lit ''A new day has started. Daily API limit has been reset.'')
              (update_tracking (tracking_key_of c)
                 (\<lambda>r. r\<lparr>requests_made_today := 0, daily_limit_reached := Some False,
                        last_checked := now\<rparr>) w1))
         else (False, w1))"

definition update_requests_made_today :: "control \<Rightarrow> int \<Rightarrow> world \<Rightarrow> world" where
  "update_requests_made_today c now w =
     (let n = requests_today c now w
      in log_event ''Request Update'' (''Requests made today incremented to {}'', [AInt (int n + 1)])
           (update_tracking (tracking_key_of c)
              (\<lambda>r. r\<lparr>requests_made_today := requests_made_today r + 1, last_checked := now\<rparr>) w))"

text \<open>The ids of the platform's call types, and the calls of those types since a time.\<close>

definition platform_type_ids :: "control \<Rightarrow> world \<Rightarrow> int list" where
  "platform_type_ids c w = map type_id (filter (\<lambda>t. type_platform t = platform c) (api_call_types w))"

definition calls_since :: "control \<Rightarrow> int \<Rightarrow> world \<Rightarrow> api_call list" where
  "calls_since c t w =
     filter (\<lambda>r. call_type_id r \<in> set (platform_type_ids c w) \<and> t \<le> call_timestamp r) (api_calls w)"

text \<open>
  \<^verbatim>\<open>rate_limit_check\<close>: the interval slept, in exact arithmetic
  (\<open>300 / (300 * 0.9)\<close> seconds, stretched by the calls per second of the last 5 minutes).
  The sleep itself changes no table; the clock is an input of every operation here.
\<close>

definition allowed_call_interval :: rat where
  "allowed_call_interval = 300 / (300 * (9 / 10))"

definition next_interval :: "control \<Rightarrow> int \<Rightarrow> world \<Rightarrow> rat" where
  "next_interval c now w =
     (let current_call_rate = of_nat (length (calls_since c (now - 300) w)) / 300
      in allowed_call_interval + current_call_rate * allowed_call_interval)"

definition rate_limit_check :: "control \<Rightarrow> int \<Rightarrow> world \<Rightarrow> world" where
  "rate_limit_check c now w =
     (let calls = length (calls_since c (now - 300) w);
          iv = next_interval c now w;
          w1 = log_event ''Rate Limit Check''
                 (''Calls in the last 5 minutes: {}, Next interval: {:.2f} seconds'',
                  [AInt (int calls), ARat iv]) w
      in if 0 < iv then
           log_event ''Rate Limit'' (''Sleeping for {:.2f} seconds to enforce rate limit.'', [ARat iv]) w1
         else
           log_event ''Rate Limit'' (lit ''No need to sleep, the call rate is within limits.'') w1)"

text \<open>
  \<^verbatim>\<open>check_failure_rate\<close>: the two counts over the trailing 120 seconds, and the test
  \<^verbatim>\<open>failure_count > 10 and (success_count > 0 and (failure_count / success_count) > 0.2)\<close>.
  The quotient of the two counts is taken exactly.
\<close>

definition failure_count :: "control \<Rightarrow> int \<Rightarrow> world \<Rightarrow> nat" where
  "failure_count c now w = length (filter (\<lambda>r. response_code r \<noteq> 200) (calls_since c (now - 120) w))"

definition success_count :: "control \<Rightarrow> int \<Rightarrow> world \<Rightarrow> nat" where
  "success_count c now w = length (filter (\<lambda>r. response_code r = 200) (calls_since c (now - 120) w))"

definition check_failure_rate :: "control \<Rightarrow> int \<Rightarrow> world \<Rightarrow> bool \<times> world" where
  "check_failure_rate c now w =
     (let f = failure_count c now w; s = success_count c now w
      in if 10 < f \<and> (0 < s \<and> (2 / 10 :: rat) < of_nat f / of_nat s) then
           (True, log_event ''Failure Rate Check''
                    (''Failures exceed threshold: {} failures in last 2 minutes.'', [AInt (int f)]) w)
         else
           (False, log_event ''Failure Rate Check''
                     (''Failures within limits: {} failures, {} successes.'', [AInt (int f), AInt (int s)]) w))"

section \<open>The environment of a run\<close>

text \<open>
  What the code receives from outside: the answer to each HTTP request, in the order the
  requests are sent (\<^verbatim>\<open>requests.get\<close> returns a response or raises
  \<^verbatim>\<open>RequestException\<close>); whether the database refuses the INSERT of a loop
  iteration; the wall clock at each loop iteration; and the library functions the code
  calls on strings and dates. The databases are reachable: connecting, SELECT and UPDATE
  do not fail.
\<close>

datatype http_result = Transport_error | Response int string json

datatype db_fault = IntegrityError | OtherDbError

record env =
  net :: "nat \<Rightarrow> http_result"
  insert_fault :: "nat \<Rightarrow> db_fault option"
  clock :: "nat \<Rightarrow> int"
  py_int :: "string \<Rightarrow> int option"
  strptime_date :: "string \<Rightarrow> int option"
  strptime_datetime :: "string \<Rightarrow> int option"
  to_char_date :: "int \<Rightarrow> string"
  session_epoch :: "int \<Rightarrow> int"
  local_now :: int

text \<open>
  \<open>py_int\<close> is Python's \<^verbatim>\<open>int(s)\<close> (\<open>None\<close>: \<open>ValueError\<close>).
  \<open>strptime_date s\<close> is \<^verbatim>\<open>int(datetime.strptime(s, "%Y-%m-%d").timestamp())\<close>, the
  epoch of the local midnight of the date; \<^verbatim>\<open>human_to_unix\<close> computes the same with
  \<^verbatim>\<open>time.mktime\<close>. \<open>strptime_datetime s\<close> is
  \<^verbatim>\<open>datetime.strptime(s, '%Y-%m-%d %H:%M:%S')\<close>, a timestamp without time zone,
  written as its seconds since 1970-01-01 00:00:00. \<open>to_char_date t\<close> is PostgreSQL's
  \<^verbatim>\<open>to_char(t, 'YYYY-MM-DD')\<close>, and \<open>session_epoch t\<close> the epoch of the instant that
  the timestamp \<open>t\<close> denotes in the session's time zone (the cast to
  \<^verbatim>\<open>timestamptz\<close>). \<open>local_now\<close> is \<^verbatim>\<open>datetime.now()\<close> when the script starts.
\<close>

section \<open>Python operations on JSON values\<close>

definition and_then :: "exn + 'a \<Rightarrow> ('a \<Rightarrow> exn + 'b) \<Rightarrow> exn + 'b" where
  "and_then r f = (case r of Inl e \<Rightarrow> Inl e | Inr v \<Rightarrow> f v)"

text \<open>\<^verbatim>\<open>x.get(key, default)\<close>: only a dict has \<open>get\<close>.\<close>

fun dict_get :: "json \<Rightarrow> string \<Rightarrow> json \<Rightarrow> exn + json" where
  "dict_get (JObj kvs) k d = Inr (case map_of kvs k of None \<Rightarrow> d | Some v \<Rightarrow> v)"
| "dict_get x k d = Inl AttributeError"

text \<open>\<^verbatim>\<open>x[key]\<close> for a string key.\<close>

fun subscript :: "json \<Rightarrow> string \<Rightarrow> exn + json" where
  "subscript (JObj kvs) k = (case map_of kvs k of None \<Rightarrow> Inl KeyError | Some v \<Rightarrow> Inr v)"
| "subscript x k = Inl TypeError"

text \<open>\<^verbatim>\<open>x[0]\<close>: a dict read from JSON has no key \<open>0\<close>; a string gives its first character.\<close>

fun first_item :: "json \<Rightarrow> exn + json" where
  "first_item (JArr []) = Inl IndexError"
| "first_item (JArr (x # xs)) = Inr x"
| "first_item (JObj kvs) = Inl KeyError"
| "first_item (JStr []) = Inl IndexError"
| "first_item (JStr (ch # cs)) = Inr (JStr [ch])"
| "first_item x = Inl TypeError"

text \<open>Truth value of a JSON value, of \<^verbatim>\<open>api_call_id\<close>, and \<^verbatim>\<open>isinstance(x, (int, float))\<close>.\<close>

fun truthy :: "json \<Rightarrow> bool" where
  "truthy JNull = False"
| "truthy (JBool b) = b"
| "truthy (JInt n) = (n \<noteq> 0)"
| "truthy (JFloat r) = (r \<noteq> 0)"
| "truthy (JStr s) = (s \<noteq> [])"
| "truthy (JArr xs) = (xs \<noteq> [])"
| "truthy (JObj kvs) = (kvs \<noteq> [])"

fun truthy_opt :: "json option \<Rightarrow> bool" where
  "truthy_opt None = False"
| "truthy_opt (Some j) = truthy j"

fun truthy_id :: "nat option \<Rightarrow> bool" where
  "truthy_id None = False"
| "truthy_id (Some n) = (n \<noteq> 0)"

fun is_int_or_float :: "json \<Rightarrow> bool" where
  "is_int_or_float (JInt n) = True"
| "is_int_or_float (JFloat r) = True"
| "is_int_or_float (JBool b) = True"
| "is_int_or_float x = False"

fun is_int :: "json \<Rightarrow> bool" where
  "is_int (JInt n) = True"
| "is_int (JBool b) = True"
| "is_int x = False"

fun is_str :: "json \<Rightarrow> bool" where
  "is_str (JStr s) = True"
| "is_str x = False"

text \<open>\<^verbatim>\<open>needle in text\<close> on strings, and \<^verbatim>\<open>s.split(sep)\<close> for a one-character separator.\<close>

fun starts_with :: "string \<Rightarrow> string \<Rightarrow> bool" where
  "starts_with [] s = True"
| "starts_with (p # ps) [] = False"
| "starts_with (p # ps) (x # xs) = (p = x \<and> starts_with ps xs)"

fun contains :: "string \<Rightarrow> string \<Rightarrow> bool" where
  "contains needle [] = (needle = [])"
| "contains needle (x # xs) = (starts_with needle (x # xs) \<or> contains needle xs)"

fun split_on :: "char \<Rightarrow> string \<Rightarrow> string list" where
  "split_on sep [] = [[]]"
| "split_on sep (x # xs) =
     (if x = sep then [] # split_on sep xs
      else (case split_on sep xs of
              [] \<Rightarrow> [[x]]
            | p # ps \<Rightarrow> (x # p) # ps))"

text \<open>\<^verbatim>\<open>xs[:limit]\<close>: a negative limit counts from the end.\<close>

definition slice_to :: "int \<Rightarrow> 'a list \<Rightarrow> 'a list" where
  "slice_to limit xs =
     (if 0 \<le> limit then take (nat limit) xs else take (length xs - nat (- limit)) xs)"

section \<open>The daily engine: OpenWeatherDailySummary\<close>

text \<open>What \<^verbatim>\<open>call_openweather_api\<close> returns: a pair, or \<open>None\<close> when the function body ends without a \<^verbatim>\<open>return\<close>.\<close>

datatype call_result = Returned "json option" "nat option" | Returned_None

definition max_retries :: nat where
  "max_retries = 3"

definition count_failed_request :: "world \<Rightarrow> world" where
  "count_failed_request w = w\<lparr>failed_requests := Suc (failed_requests w)\<rparr>"

definition count_failed_insert :: "world \<Rightarrow> world" where
  "count_failed_insert w = w\<lparr>failed_sql_inserts := Suc (failed_sql_inserts w)\<rparr>"

definition send_request :: "world \<Rightarrow> world" where
  "send_request w = w\<lparr>requests_sent := Suc (requests_sent w)\<rparr>"

definition track :: "control \<Rightarrow> int \<Rightarrow> message \<Rightarrow> message option \<Rightarrow> bool \<Rightarrow> world \<Rightarrow> world" where
  "track c now st reason force w =
     insert_tracking_log now (script_name c) (platform c) (api_call_alt_name c) st reason force w"

text \<open>
  The critical branches (404, 403, 5xx and the outer \<^verbatim>\<open>except Exception\<close>):
  log, upsert the tracking row as \<open>stopped-err\<close> with \<open>force_restart\<close>, count the request,
  \<^verbatim>\<open>sys.exit(1)\<close>.
\<close>

definition critical_exit :: "control \<Rightarrow> int \<Rightarrow> string \<Rightarrow> message \<Rightarrow> world \<Rightarrow> (exn + call_result) \<times> world" where
  "critical_exit c now event msg w =
     (Inl (SystemExit 1),
      update_requests_made_today c now (track c now (lit ''stopped-err'') (Some msg) True (log_event event msg w)))"

text \<open>
  The loop \<^verbatim>\<open>for attempt in range(max_retries)\<close> of the daily
  \<^verbatim>\<open>call_openweather_api\<close>, from \<open>attempt\<close> on. A response whose code matches no
  branch of the \<^verbatim>\<open>if\<close> chain leaves the loop body, and the next attempt sends
  the request again; when the range is used up the function body ends.
\<close>

function summary_attempts ::
  "env \<Rightarrow> control \<Rightarrow> string \<Rightarrow> nat \<Rightarrow> nat \<Rightarrow> int \<Rightarrow> nat \<Rightarrow> nat \<Rightarrow> world \<Rightarrow> (exn + call_result) \<times> world" where
  "summary_attempts e c date total_dates completed_dates now attempt retries w =
     (if attempt < max_retries then
        (case net e (requests_sent w) of
           Response code text body \<Rightarrow>
             (case log_api_call now (api_call_type_id c) code retries (send_request w) of
                (cid, w1) \<Rightarrow>
                  if code = 200 then
                    (Inr (Returned (Some body) (Some cid)),
                     update_requests_made_today c now
                       (track c now (''Processing: {} of {}'', [AInt (int completed_dates), AInt (int total_dates)]) None False
                          (log_event ''Success'' (''Data received for date: {}'', [AStr date]) w1)))
                  else if code = 400 \<and> contains ''out the available range'' text then
                    (Inr (Returned None (Some cid)),
                     update_requests_made_today c now
                       (track c now (lit ''Processing'')
                          (Some (''API Error: call failed with status {}: Invalid date'', [AInt code])) False
                          (count_failed_request
                             (log_event ''Warning''
                                (''API Error: call failed with status {}: Invalid date'', [AInt code]) w1))))
                  else if code = 404 then
                    critical_exit c now ''Critical Error''
                      (''API call failed with status {}: Not Found'', [AInt code]) w1
                  else if code = 403 then
                    critical_exit c now ''Critical Error''
                      (''API call failed with status {}: Forbidden (Invalid API Key)'', [AInt code]) w1
                  else if 500 \<le> code then
                    critical_exit c now ''Critical Error''
                      (''Server Error (Status: {}) during API call'', [AInt code]) w1
                  else summary_attempts e c date total_dates completed_dates now (Suc attempt) retries w1)
         | Transport_error \<Rightarrow>
             if attempt < max_retries - 1 then
               summary_attempts e c date total_dates completed_dates now (Suc attempt) (Suc retries)
                 (log_event ''Warning''
                    (''Error fetching data: {}. Retrying ({}/{})...'',
                     [AExn RequestException, AInt (int (Suc retries)), AInt (int max_retries)])
                    (send_request w))
             else
               (Inr (Returned None None),
                update_requests_made_today c now
                  (track c now (lit ''Processing'')
                     (Some (''Error fetching data after {} attempts. Skipping this date: {}'',
                            [AInt (int max_retries), AStr date])) True
                     (log_event ''Error''
                        (''Error fetching data after {} attempts. Skipping this date: {}'',
                         [AInt (int max_retries), AStr date])
                        (send_request w)))))
      else (Inr Returned_None, w))"
  by pat_completeness auto
termination
  by (relation "measure (\<lambda>(e, c, date, total_dates, completed_dates, now, attempt, retries, w). max_retries - attempt)")
    auto

declare summary_attempts.simps [simp del]

definition summary_api_call_type :: string where
  "summary_api_call_type = ''Daily Aggregation''"

definition summary_call_openweather_api ::
  "env \<Rightarrow> control \<Rightarrow> string \<Rightarrow> nat \<Rightarrow> nat \<Rightarrow> int \<Rightarrow> world \<Rightarrow> (exn + call_result) \<times> world" where
  "summary_call_openweather_api e c date total_dates completed_dates now w =
     (case get_api_prototype (platform c) summary_api_call_type w of
        (Inl x, w1) \<Rightarrow>
          if is_Exception x then critical_exit c now ''API Error'' (''API Error: {}'', [AExn x]) w1
          else (Inl x, w1)
      | (Inr prototype, w1) \<Rightarrow>
          summary_attempts e c date total_dates completed_dates now 0 0
            (log_event ''Request''
               (''Calling API: OpenWeather daily summary for timestamp: {}'', [AStr date]) w1))"

text \<open>
  The outcome of the body of \<^verbatim>\<open>extract_and_validate_weather_data\<close> when it raises
  nothing: the validated record, or the message passed to
  \<^verbatim>\<open>handle_sql_failure\<close> before \<^verbatim>\<open>return None\<close>.
\<close>

datatype 'a validation = Validated 'a | Rejected message

definition lookup :: "(string \<times> json) list \<Rightarrow> string \<Rightarrow> json \<Rightarrow> json" where
  "lookup kvs k d = (case map_of kvs k of None \<Rightarrow> d | Some v \<Rightarrow> v)"

text \<open>\<^verbatim>\<open>data.get(outer, {}).get(inner, default)\<close> on a dict \<open>data\<close>.\<close>

definition nested_get :: "(string \<times> json) list \<Rightarrow> string \<Rightarrow> string \<Rightarrow> json \<Rightarrow> exn + json" where
  "nested_get kvs outer inner d = dict_get (lookup kvs outer (JObj [])) inner d"

definition convert_tz_to_seconds :: "env \<Rightarrow> json \<Rightarrow> exn + int" where
  "convert_tz_to_seconds e tz =
     (case tz of
        JStr s \<Rightarrow>
          (let tz_sign = (if starts_with ''-'' s then - 1 else 1)
           in case map (py_int e) (split_on CHR '':'' (drop 1 s)) of
                [Some tz_hours, Some tz_minutes] \<Rightarrow> Inr (tz_sign * (tz_hours * 3600 + tz_minutes * 60))
              | _ \<Rightarrow> Inl ValueError)
      | _ \<Rightarrow> Inl AttributeError)"

definition summary_parse_date :: "env \<Rightarrow> json \<Rightarrow> exn + int" where
  "summary_parse_date e date_str =
     (case date_str of
        JStr s \<Rightarrow> (case strptime_date e s of None \<Rightarrow> Inl ValueError | Some t \<Rightarrow> Inr t)
      | _ \<Rightarrow> Inl TypeError)"

definition summary_extract :: "env \<Rightarrow> json \<Rightarrow> exn + daily_record validation" where
  "summary_extract e data =
     (case data of
        JObj kvs \<Rightarrow>
          and_then (summary_parse_date e (lookup kvs ''date'' (JStr ''1970-01-01''))) (\<lambda>date_unix.
          and_then (nested_get kvs ''cloud_cover'' ''afternoon'' (JFloat 0)) (\<lambda>cloud_cover_afternoon'.
          and_then (nested_get kvs ''humidity'' ''afternoon'' (JFloat 0)) (\<lambda>humidity_afternoon'.
          and_then (nested_get kvs ''precipitation'' ''total'' (JFloat 0)) (\<lambda>precipitation_total'.
          and_then (nested_get kvs ''temperature'' ''min'' (JFloat 0)) (\<lambda>temperature_min'.
          and_then (nested_get kvs ''temperature'' ''max'' (JFloat 0)) (\<lambda>temperature_max'.
          and_then (nested_get kvs ''temperature'' ''afternoon'' (JFloat 0)) (\<lambda>temperature_afternoon'.
          and_then (nested_get kvs ''temperature'' ''night'' (JFloat 0)) (\<lambda>temperature_night'.
          and_then (nested_get kvs ''temperature'' ''evening'' (JFloat 0)) (\<lambda>temperature_evening'.
          and_then (nested_get kvs ''temperature'' ''morning'' (JFloat 0)) (\<lambda>temperature_morning'.
          and_then (nested_get kvs ''pressure'' ''afternoon'' (JFloat 0)) (\<lambda>pressure_afternoon'.
          and_then (and_then (dict_get (lookup kvs ''wind'' (JObj [])) ''max'' (JObj []))
                      (\<lambda>m. dict_get m ''speed'' (JFloat 0))) (\<lambda>wind_max_speed'.
          and_then (and_then (dict_get (lookup kvs ''wind'' (JObj [])) ''max'' (JObj []))
                      (\<lambda>m. dict_get m ''direction'' (JInt 0))) (\<lambda>wind_max_direction'.
          let critical_fields =
                [(''cloud_cover_afternoon'', cloud_cover_afternoon'),
                 (''humidity_afternoon'', humidity_afternoon'),
                 (''precipitation_total'', precipitation_total'),
                 (''temperature_min'', temperature_min'),
                 (''temperature_max'', temperature_max'),
                 (''pressure_afternoon'', pressure_afternoon'),
                 (''wind_max_speed'', wind_max_speed')];
              missing_fields = map fst (filter (\<lambda>fv. snd fv = JNull) critical_fields)
          in if missing_fields \<noteq> [] then
               Inr (Rejected (''Missing critical data: {} for date {}'', [AStrs missing_fields, AInt date_unix]))
             else
               and_then (convert_tz_to_seconds e (lookup kvs ''tz'' (JStr ''00:00''))) (\<lambda>tzoff.
               Inr (Validated
                 \<lparr>d_lat = lookup kvs ''lat'' (JFloat 0), d_lon = lookup kvs ''lon'' (JFloat 0),
                  d_tzoff = tzoff, d_date = date_unix, d_units = lookup kvs ''units'' (JStr ''metric''),
                  cloud_cover_afternoon = cloud_cover_afternoon',
                  humidity_afternoon = humidity_afternoon',
                  precipitation_total = precipitation_total',
                  temperature_min = temperature_min',
                  temperature_max = temperature_max',
                  temperature_afternoon = temperature_afternoon',
                  temperature_night = temperature_night',
                  temperature_evening = temperature_evening',
                  temperature_morning = temperature_morning',
                  pressure_afternoon = pressure_afternoon',
                  wind_max_speed = wind_max_speed',
                  wind_max_direction = wind_max_direction'\<rparr>)))))))))))))))
      | _ \<Rightarrow> Inl AttributeError)"

text \<open>The \<^verbatim>\<open>try\<close> of the daily validation catches every \<^verbatim>\<open>Exception\<close>.\<close>

definition summary_extract_and_validate_weather_data ::
  "env \<Rightarrow> json \<Rightarrow> nat option \<Rightarrow> world \<Rightarrow> daily_record option \<times> world" where
  "summary_extract_and_validate_weather_data e data cid w =
     (case summary_extract e data of
        Inr (Validated r) \<Rightarrow> (Some r, w)
      | Inr (Rejected msg) \<Rightarrow> (None, handle_sql_failure cid msg w)
      | Inl x \<Rightarrow>
          (None, handle_sql_failure cid (''Error extracting and validating weather data: {}'', [AExn x]) w))"

text \<open>
  \<^verbatim>\<open>store_weather_data\<close> of the daily engine. The existence check is
  \<^verbatim>\<open>SELECT 1 FROM daily_summary_data WHERE date = %s\<close>; \<open>fault\<close> is what the database
  answers to the INSERT. Returns 1 after an insert, 0 otherwise.
\<close>

definition store_failure :: "nat option \<Rightarrow> string \<Rightarrow> message \<Rightarrow> message \<Rightarrow> world \<Rightarrow> nat \<times> world" where
  "store_failure cid event logged err w =
     (0, count_failed_insert (log_sql_insert cid (lit ''failure'') (Some err) (log_event event logged w)))"

definition summary_store_weather_data ::
  "db_fault option \<Rightarrow> daily_record \<Rightarrow> nat option \<Rightarrow> world \<Rightarrow> nat \<times> world" where
  "summary_store_weather_data fault data cid w =
     (if d_date data \<in> set (map d_date (daily_summary_data w)) then
        store_failure cid ''data_exists'' (''Record already exists for date {}'', [AInt (d_date data)])
          (lit ''Duplicate record'') w
      else
        (case fault of
           None \<Rightarrow>
             (1, log_event ''sql_insert_success'' (''Record inserted for date {}'', [AInt (d_date data)])
                   (log_sql_insert cid (''Successfully inserted data for date {}'', [AInt (d_date data)]) None
                      (w\<lparr>daily_summary_data := daily_summary_data w @ [data]\<rparr>)))
         | Some IntegrityError \<Rightarrow>
             store_failure cid ''sql_insert_failure'' (''Duplicate record for date {}'', [AInt (d_date data)])
               (lit ''Duplicate record'') w
         | Some OtherDbError \<Rightarrow>
             store_failure cid ''sql_insert_failure'' (''Failed to insert data: {}'', [AStr ''OtherDbError''])
               (''{}'', [AStr ''OtherDbError'']) w))"

text \<open>The batch file as \<^verbatim>\<open>load_json_input\<close> finds it.\<close>

datatype file_content = File_missing | File_undecodable | File_json json

fun str_of :: "json \<Rightarrow> string" where
  "str_of (JStr s) = s"
| "str_of x = []"

definition load_failure :: "control \<Rightarrow> int \<Rightarrow> message \<Rightarrow> world \<Rightarrow> (exn + 'a) \<times> world" where
  "load_failure c now msg w =
     (Inl (SystemExit 1), track c now (lit ''stopped-err'') (Some msg) False (log_event ''Error'' msg w))"

definition summary_load_json_input ::
  "control \<Rightarrow> int \<Rightarrow> string \<Rightarrow> file_content \<Rightarrow> world \<Rightarrow> (exn + string list) \<times> world" where
  "summary_load_json_input c now path file w =
     (case file of
        File_missing \<Rightarrow> load_failure c now (''Input file {} not found'', [AStr path]) w
      | File_undecodable \<Rightarrow> load_failure c now (''Failed to decode JSON from file {}'', [AStr path]) w
      | File_json data \<Rightarrow>
          (case data of
             JArr items \<Rightarrow>
               if list_all is_str items then (Inr (map str_of items), w)
               else load_failure c now (''Invalid input format: {}'', [AJson data]) w
           | _ \<Rightarrow> load_failure c now (''Invalid input format: {}'', [AJson data]) w))"

text \<open>
  \<^verbatim>\<open>check_for_duplicates\<close>: keep the dates with no row; \<^verbatim>\<open>human_to_unix\<close> raises
  \<open>ValueError\<close> on a string that is no date.
\<close>

fun summary_check_for_duplicates :: "env \<Rightarrow> world \<Rightarrow> string list \<Rightarrow> exn + string list" where
  "summary_check_for_duplicates e w [] = Inr []"
| "summary_check_for_duplicates e w (t # ts) =
     (case strptime_date e t of
        None \<Rightarrow> Inl ValueError
      | Some u \<Rightarrow>
          and_then (summary_check_for_duplicates e w ts) (\<lambda>rest.
            Inr (if u \<in> set (map d_date (daily_summary_data w)) then rest else t # rest)))"

text \<open>
  One iteration of the loop of \<^verbatim>\<open>run\<close>: the three governor checks, the call, then
  validation and store. Unpacking \<open>None\<close> into
  \<^verbatim>\<open>weather_data, api_call_id\<close> raises \<open>TypeError\<close>.
\<close>

definition count_batch_call :: "world \<Rightarrow> world" where
  "count_batch_call w = w\<lparr>batch_call_requests := Suc (batch_call_requests w)\<rparr>"

definition summary_validate_and_store ::
  "env \<Rightarrow> nat \<Rightarrow> json option \<Rightarrow> nat option \<Rightarrow> world \<Rightarrow> world" where
  "summary_validate_and_store e idx weather_data cid w =
     (case weather_data of
        None \<Rightarrow> w
      | Some data \<Rightarrow>
          if truthy data \<and> truthy_id cid then
            (case summary_extract_and_validate_weather_data e data cid w of
               (None, w1) \<Rightarrow> w1
             | (Some extracted, w1) \<Rightarrow> snd (summary_store_weather_data (insert_fault e idx) extracted cid w1))
          else w)"

definition governor_gate :: "control \<Rightarrow> int \<Rightarrow> world \<Rightarrow> (exn + unit) \<times> world" where
  "governor_gate c now w =
     (case check_daily_limit_reached c now w of
        (True, w1) \<Rightarrow> (Inl (SystemExit 1), w1)
      | (False, w1) \<Rightarrow>
          (case check_failure_rate c now (rate_limit_check c now w1) of
             (True, w2) \<Rightarrow> (Inl (SystemExit 1), w2)
           | (False, w2) \<Rightarrow> (Inr (), w2)))"

definition summary_process_key ::
  "env \<Rightarrow> control \<Rightarrow> nat \<Rightarrow> nat \<Rightarrow> string \<Rightarrow> world \<Rightarrow> (exn + unit) \<times> world" where
  "summary_process_key e c total_dates idx date w =
     (case governor_gate c (clock e idx) w of
        (Inl x, w1) \<Rightarrow> (Inl x, w1)
      | (Inr u, w1) \<Rightarrow>
          (case summary_call_openweather_api e c date total_dates idx (clock e idx) w1 of
             (Inl x, w2) \<Rightarrow> (Inl x, w2)
           | (Inr Returned_None, w2) \<Rightarrow> (Inl TypeError, w2)
           | (Inr (Returned weather_data cid), w2) \<Rightarrow>
               (Inr (), count_batch_call (summary_validate_and_store e idx weather_data cid w2))))"

fun summary_loop ::
  "env \<Rightarrow> control \<Rightarrow> nat \<Rightarrow> nat \<Rightarrow> string list \<Rightarrow> world \<Rightarrow> (exn + unit) \<times> world" where
  "summary_loop e c total_dates idx [] w = (Inr (), w)"
| "summary_loop e c total_dates idx (date # rest) w =
     (case summary_process_key e c total_dates idx date w of
        (Inl x, w1) \<Rightarrow> (Inl x, w1)
      | (Inr u, w1) \<Rightarrow> summary_loop e c total_dates (Suc idx) rest w1)"

definition end_of_run :: "control \<Rightarrow> int \<Rightarrow> world \<Rightarrow> world" where
  "end_of_run c now w =
     log_event ''Success''
       (''Script completed with {} requests, {} request failures, and {} failed inserts.'',
        [AInt (int (batch_call_requests w)), AInt (int (failed_requests w)), AInt (int (failed_sql_inserts w))])
       (track c now
          (if failed_requests w \<noteq> 0 \<or> 0 < failed_sql_inserts w then lit ''stopped-warn''
           else lit ''stopped-succ'') None False w)"

definition summary_run ::
  "env \<Rightarrow> control \<Rightarrow> string \<Rightarrow> file_content \<Rightarrow> world \<Rightarrow> (exn + unit) \<times> world" where
  "summary_run e c path file w =
     (case summary_load_json_input c (clock e 0) path file w of
        (Inl x, w1) \<Rightarrow> (Inl x, w1)
      | (Inr timestamps, w1) \<Rightarrow>
          (case summary_check_for_duplicates e w1 timestamps of
             Inl x \<Rightarrow> (Inl x, w1)
           | Inr valid_timestamps \<Rightarrow>
               (case summary_loop e c (length valid_timestamps) 0 valid_timestamps
                       (if valid_timestamps = [] then
                          log_event ''Warning'' (lit ''All dates submitted exist in the database.'') w1
                        else w1) of
                  (Inl x, w2) \<Rightarrow> (Inl x, w2)
                | (Inr u, w2) \<Rightarrow> (Inr (), end_of_run c (clock e (length valid_timestamps)) w2))))"

section \<open>The hourly engine: OpenWeatherTimemachine\<close>

definition timemachine_api_call_type :: string where
  "timemachine_api_call_type = ''Weather Data for Timestamp''"

text \<open>
  The hourly \<^verbatim>\<open>call_openweather_api\<close> sends one request, outside any retry loop; a
  \<^verbatim>\<open>RequestException\<close> reaches the outer \<^verbatim>\<open>except Exception\<close>. The last
  \<^verbatim>\<open>else\<close> takes every code no earlier branch matches.
\<close>

definition timemachine_call_openweather_api ::
  "env \<Rightarrow> control \<Rightarrow> json \<Rightarrow> nat \<Rightarrow> nat \<Rightarrow> int \<Rightarrow> world \<Rightarrow> (exn + call_result) \<times> world" where
  "timemachine_call_openweather_api e c unix_timestamp total_timestamps completed_timestamps now w =
     (case get_api_prototype (platform c) timemachine_api_call_type w of
        (Inl x, w1) \<Rightarrow>
          if is_Exception x then critical_exit c now ''API Error'' (''API Error: {}'', [AExn x]) w1
          else (Inl x, w1)
      | (Inr prototype, w1) \<Rightarrow>
          (case net e (requests_sent w1) of
             Transport_error \<Rightarrow>
               critical_exit c now ''API Error'' (''API Error: {}'', [AExn RequestException])
                 (send_request
                    (log_event ''Request''
                       (''Calling API: OpenWeather timemachine for timestamp: {}'', [AJson unix_timestamp]) w1))
           | Response code text body \<Rightarrow>
               (case log_api_call now (api_call_type_id c) code 0
                       (send_request
                          (log_event ''Request''
                             (''Calling API: OpenWeather timemachine for timestamp: {}'', [AJson unix_timestamp])
                             w1)) of
                  (cid, w2) \<Rightarrow>
                    if code = 200 then
                      (Inr (Returned (Some body) (Some cid)),
                       update_requests_made_today c now
                         (track c now
                            (''Processing: {} of {}'',
                             [AInt (int completed_timestamps), AInt (int total_timestamps)]) None False
                            (log_event ''Success'' (''Data received for timestamp: {}'', [AJson unix_timestamp]) w2)))
                    else if code = 400 \<and> contains ''out the available range'' text then
                      (Inr (Returned None (Some cid)),
                       update_requests_made_today c now
                         (track c now (lit ''Processing'')
                            (Some (''API Error: call failed with status {}: Invalid date'', [AInt code])) False
                            (count_failed_request
                               (log_event ''Warning''
                                  (''API Error: call failed with status {}: Invalid date'', [AInt code]) w2))))
                    else if code = 404 then
                      critical_exit c now ''Critical Error''
                        (''API call failed with status {}: Not Found (URL might be wrong)'', [AInt code]) w2
                    else if code = 403 then
                      critical_exit c now ''Critical Error''
                        (''API call failed with status {}: Forbidden (Invalid API Key)'', [AInt code]) w2
                    else if 500 \<le> code then
                      critical_exit c now ''Critical Error''
                        (''Server Error (Status: {}) during API call'', [AInt code]) w2
                    else
                      (Inr (Returned None (Some cid)),
                       update_requests_made_today c now
                         (track c now (lit ''Processing'')
                            (Some (''API Error: Unhandled API error with status {}'', [AInt code])) True
                            (count_failed_request
                               (log_event ''API Error: ''
                                  (''API Error: Unhandled API error with status {}'', [AInt code]) w2)))))))"

text \<open>
  The body of the hourly validation. \<^verbatim>\<open>weather_data.get(field) is None\<close> holds for
  an absent field and for a null one.
\<close>

definition timemachine_critical_fields :: "string list" where
  "timemachine_critical_fields = [''temp'', ''feels_like'', ''pressure'', ''humidity'', ''dt'']"

definition item :: "(string \<times> json) list \<Rightarrow> string \<Rightarrow> exn + json" where
  "item kvs k = (case map_of kvs k of None \<Rightarrow> Inl KeyError | Some v \<Rightarrow> Inr v)"

definition timemachine_extract :: "json \<Rightarrow> exn + hourly_record validation" where
  "timemachine_extract data =
     and_then (subscript data ''data'') (\<lambda>data_list.
     and_then (first_item data_list) (\<lambda>weather_data.
       (case weather_data of
          JObj kvs \<Rightarrow>
            (let visibility = (if is_int_or_float (lookup kvs ''visibility'' (JInt 0))
                               then lookup kvs ''visibility'' (JInt 0) else JInt 0);
                 missing_fields = filter (\<lambda>field. lookup kvs field JNull = JNull) timemachine_critical_fields
             in if missing_fields \<noteq> [] then
                  Inr (Rejected (''Missing critical data: {} for timestamp {}'',
                                 [AStrs missing_fields, AJson (lookup kvs ''dt'' JNull)]))
                else
                  and_then (first_item (lookup kvs ''weather'' (JArr [JObj []]))) (\<lambda>weather0.
                  and_then (dict_get weather0 ''description'' JNull) (\<lambda>description.
                    if \<not> truthy description then
                      Inr (Rejected (''Missing 'description' for timestamp {}'', [AJson (lookup kvs ''dt'' JNull)]))
                    else
                      and_then (item kvs ''dt'') (\<lambda>dt.
                      and_then (item kvs ''sunrise'') (\<lambda>sunrise.
                      and_then (item kvs ''sunset'') (\<lambda>sunset.
                      and_then (item kvs ''temp'') (\<lambda>temp.
                      and_then (item kvs ''feels_like'') (\<lambda>feels_like.
                      and_then (item kvs ''pressure'') (\<lambda>pressure.
                      and_then (item kvs ''humidity'') (\<lambda>humidity.
                      and_then (item kvs ''dew_point'') (\<lambda>dew_point.
                      and_then (item kvs ''clouds'') (\<lambda>clouds.
                      and_then (item kvs ''wind_speed'') (\<lambda>wind_speed.
                      and_then (item kvs ''wind_deg'') (\<lambda>wind_deg.
                      and_then (subscript data ''lat'') (\<lambda>lat.
                      and_then (subscript data ''lon'') (\<lambda>lon.
                      and_then (subscript data ''timezone'') (\<lambda>timezone.
                      and_then (subscript data ''timezone_offset'') (\<lambda>timezone_offset.
                      Inr (Validated
                        \<lparr>h_dt = dt, h_lat = lat, h_lon = lon, h_timezone = timezone,
                         h_timezone_offset = timezone_offset, h_sunrise = sunrise, h_sunset = sunset,
                         h_temp = temp, h_feels_like = feels_like, h_pressure = pressure,
                         h_humidity = humidity, h_dew_point = dew_point, h_visibility = visibility,
                         h_description = description, h_clouds = clouds, h_wind_speed = wind_speed,
                         h_wind_deg = wind_deg\<rparr>)))))))))))))))))))
        | _ \<Rightarrow> Inl AttributeError)))"

text \<open>The \<^verbatim>\<open>try\<close> of the hourly validation catches \<open>IndexError\<close> and \<open>KeyError\<close> only.\<close>

definition timemachine_extract_and_validate_weather_data ::
  "json \<Rightarrow> nat option \<Rightarrow> world \<Rightarrow> (exn + hourly_record option) \<times> world" where
  "timemachine_extract_and_validate_weather_data data cid w =
     (case timemachine_extract data of
        Inr (Validated r) \<Rightarrow> (Inr (Some r), w)
      | Inr (Rejected msg) \<Rightarrow> (Inr None, handle_sql_failure cid msg w)
      | Inl x \<Rightarrow>
          if x = IndexError \<or> x = KeyError then
            (Inr None, handle_sql_failure cid (''Data extraction failed: {}'', [AExn x]) w)
          else (Inl x, w))"

text \<open>
  \<^verbatim>\<open>store_weather_data\<close> of the hourly engine, for the engine's \<open>location_id = 1\<close>. The
  existence check is
  \<^verbatim>\<open>SELECT 1 FROM hourly_data WHERE dt = %s AND location_id = %s\<close>.
\<close>

definition timemachine_location_id :: int where
  "timemachine_location_id = 1"

definition hourly_exists :: "json \<Rightarrow> world \<Rightarrow> bool" where
  "hourly_exists dt w =
     ((dt, timemachine_location_id) \<in> set (map (\<lambda>r. (h_dt (row_data r), location_id r)) (hourly_data w)))"

definition timemachine_store_weather_data ::
  "db_fault option \<Rightarrow> hourly_record \<Rightarrow> nat option \<Rightarrow> world \<Rightarrow> nat \<times> world" where
  "timemachine_store_weather_data fault data cid w =
     (if hourly_exists (h_dt data) w then
        store_failure cid ''data_exists'' (''Record already exists for timestamp {}'', [AJson (h_dt data)])
          (lit ''Duplicate record'') w
      else
        (case fault of
           None \<Rightarrow>
             (1, log_event ''sql_insert_success'' (''Record inserted for timestamp {}'', [AJson (h_dt data)])
                   (log_sql_insert cid (''Successfully inserted timestamp {}'', [AJson (h_dt data)]) None
                      (w\<lparr>hourly_data := hourly_data w @
                            [\<lparr>row_data = data, location_id = timemachine_location_id\<rparr>]\<rparr>)))
         | Some IntegrityError \<Rightarrow>
             store_failure cid ''sql_insert_failure'' (''Duplicate record for timestamp {}'', [AJson (h_dt data)])
               (lit ''Duplicate record'') w
         | Some OtherDbError \<Rightarrow>
             store_failure cid ''sql_insert_failure'' (''Failed to insert data: {}'', [AStr ''OtherDbError''])
               (''{}'', [AStr ''OtherDbError'']) w))"

definition timemachine_load_json_input ::
  "control \<Rightarrow> int \<Rightarrow> string \<Rightarrow> file_content \<Rightarrow> world \<Rightarrow> (exn + json list) \<times> world" where
  "timemachine_load_json_input c now path file w =
     (case file of
        File_missing \<Rightarrow> load_failure c now (''Input file {} not found'', [AStr path]) w
      | File_undecodable \<Rightarrow> load_failure c now (''Failed to decode JSON from file {}'', [AStr path]) w
      | File_json data \<Rightarrow>
          (case data of
             JArr items \<Rightarrow>
               if list_all is_int items then (Inr items, w)
               else load_failure c now (''Invalid input format: {}'', [AJson data]) w
           | _ \<Rightarrow> load_failure c now (''Invalid input format: {}'', [AJson data]) w))"

definition timemachine_check_for_duplicates :: "world \<Rightarrow> json list \<Rightarrow> json list" where
  "timemachine_check_for_duplicates w timestamps = filter (\<lambda>t. \<not> hourly_exists t w) timestamps"

definition timemachine_validate_and_store ::
  "env \<Rightarrow> nat \<Rightarrow> json option \<Rightarrow> nat option \<Rightarrow> world \<Rightarrow> (exn + unit) \<times> world" where
  "timemachine_validate_and_store e idx weather_data cid w =
     (case weather_data of
        None \<Rightarrow> (Inr (), w)
      | Some data \<Rightarrow>
          if truthy data \<and> truthy_id cid then
            (case timemachine_extract_and_validate_weather_data data cid w of
               (Inl x, w1) \<Rightarrow> (Inl x, w1)
             | (Inr None, w1) \<Rightarrow> (Inr (), w1)
             | (Inr (Some extracted), w1) \<Rightarrow>
                 (Inr (), snd (timemachine_store_weather_data (insert_fault e idx) extracted cid w1)))
          else (Inr (), w))"

definition timemachine_process_key ::
  "env \<Rightarrow> control \<Rightarrow> nat \<Rightarrow> nat \<Rightarrow> json \<Rightarrow> world \<Rightarrow> (exn + unit) \<times> world" where
  "timemachine_process_key e c total_timestamps idx unix_timestamp w =
     (case governor_gate c (clock e idx) w of
        (Inl x, w1) \<Rightarrow> (Inl x, w1)
      | (Inr u, w1) \<Rightarrow>
          (case timemachine_call_openweather_api e c unix_timestamp total_timestamps idx (clock e idx) w1 of
             (Inl x, w2) \<Rightarrow> (Inl x, w2)
           | (Inr Returned_None, w2) \<Rightarrow> (Inl TypeError, w2)
           | (Inr (Returned weather_data cid), w2) \<Rightarrow>
               (case timemachine_validate_and_store e idx weather_data cid w2 of
                  (Inl x, w3) \<Rightarrow> (Inl x, w3)
                | (Inr u, w3) \<Rightarrow> (Inr (), count_batch_call w3))))"

fun timemachine_loop ::
  "env \<Rightarrow> control \<Rightarrow> nat \<Rightarrow> nat \<Rightarrow> json list \<Rightarrow> world \<Rightarrow> (exn + unit) \<times> world" where
  "timemachine_loop e c total_timestamps idx [] w = (Inr (), w)"
| "timemachine_loop e c total_timestamps idx (t # rest) w =
     (case timemachine_process_key e c total_timestamps idx t w of
        (Inl x, w1) \<Rightarrow> (Inl x, w1)
      | (Inr u, w1) \<Rightarrow> timemachine_loop e c total_timestamps (Suc idx) rest w1)"

definition timemachine_run ::
  "env \<Rightarrow> control \<Rightarrow> string \<Rightarrow> file_content \<Rightarrow> world \<Rightarrow> (exn + unit) \<times> world" where
  "timemachine_run e c path file w =
     (case timemachine_load_json_input c (clock e 0) path file
             (track c (clock e 0) (lit ''started'') None False w) of
        (Inl x, w1) \<Rightarrow> (Inl x, w1)
      | (Inr timestamps, w1) \<Rightarrow>
          (case timemachine_loop e c (length (timemachine_check_for_duplicates w1 timestamps)) 0
                  (timemachine_check_for_duplicates w1 timestamps) w1 of
             (Inl x, w2) \<Rightarrow> (Inl x, w2)
           | (Inr u, w2) \<Rightarrow>
               (Inr (), end_of_run c (clock e (length (timemachine_check_for_duplicates w1 timestamps))) w2)))"

section \<open>The fill scripts: gap detection, batch file, main\<close>

record config =
  history_start :: string
  history_stop :: string
  batch_limit :: int

text \<open>Both scripts define the same \<^verbatim>\<open>validate_time_range\<close>; a \<^verbatim>\<open>datetime\<close> is its count of seconds.\<close>

definition validate_time_range :: "int \<Rightarrow> int \<Rightarrow> exn + unit" where
  "validate_time_range start_time stop_time = (if start_time \<le> stop_time then Inl ValueError else Inr ())"

text \<open>\<^verbatim>\<open>(now - timedelta(days=1)).replace(hour=23, minute=0, second=0, microsecond=0)\<close>.\<close>

definition yesterday_at_23 :: "int \<Rightarrow> int" where
  "yesterday_at_23 now = ((now - 86400) div 86400) * 86400 + 23 * 3600"

definition configured_start :: "env \<Rightarrow> config \<Rightarrow> int option" where
  "configured_start e cfg =
     (if history_start cfg = ''recent'' then Some (yesterday_at_23 (local_now e))
      else strptime_datetime e (history_start cfg))"

text \<open>
  PostgreSQL's \<^verbatim>\<open>generate_series(first, last, step)\<close> for a positive step:
  \<open>first\<close>, \<open>first + step\<close>, ... up to \<open>last\<close>.
\<close>

definition generate_series :: "int \<Rightarrow> int \<Rightarrow> int \<Rightarrow> int list" where
  "generate_series first_ts last_ts step = map (\<lambda>i. first_ts + i * step) [0..(last_ts - first_ts) div step]"

definition count_gap_query :: "world \<Rightarrow> world" where
  "count_gap_query w = w\<lparr>gap_queries := Suc (gap_queries w)\<rparr>"

text \<open>
  The hourly query: the series of hours anti-joined with \<^verbatim>\<open>hourly_data.dt\<close> on
  \<^verbatim>\<open>extract(epoch from a.dt)::bigint = e.dt\<close>. The function passes
  \<^verbatim>\<open>(start_time, stop_time)\<close> to the query, whose first parameter starts the series.
  The rows are taken in the order of the series.
\<close>

definition hourly_missing_query :: "world \<Rightarrow> int \<Rightarrow> int \<Rightarrow> int list" where
  "hourly_missing_query w first_ts last_ts =
     filter (\<lambda>a. JInt a \<notin> set (map (\<lambda>r. h_dt (row_data r)) (hourly_data w)))
       (generate_series first_ts last_ts 3600)"

definition generate_missing_timestamps :: "world \<Rightarrow> int \<Rightarrow> int \<Rightarrow> int list \<times> world" where
  "generate_missing_timestamps conn stop_time start_time =
     (hourly_missing_query conn start_time stop_time, count_gap_query conn)"

text \<open>
  The daily query: the series of days anti-joined with \<^verbatim>\<open>to_timestamp(date)\<close> on
  equality of instants; the rows kept (\<open>daily_missing_rows\<close>) are then rendered by
  \<^verbatim>\<open>to_char(a.date, 'YYYY-MM-DD')\<close>.
\<close>

definition daily_missing_rows :: "env \<Rightarrow> world \<Rightarrow> int \<Rightarrow> int \<Rightarrow> int list" where
  "daily_missing_rows e w first_ts last_ts =
     filter (\<lambda>a. session_epoch e a \<notin> set (map d_date (daily_summary_data w)))
       (generate_series first_ts last_ts 86400)"

definition generate_missing_daily_timestamps :: "env \<Rightarrow> world \<Rightarrow> int \<Rightarrow> int \<Rightarrow> string list \<times> world" where
  "generate_missing_daily_timestamps e conn stop_time start_time =
     (map (to_char_date e) (daily_missing_rows e conn start_time stop_time), count_gap_query conn)"

text \<open>
  \<^verbatim>\<open>create_batch_file\<close> (the same in both scripts; the hourly one also computes a
  list it does not use): write \<^verbatim>\<open>list(reversed(timestamps))[:limit]\<close>.
\<close>

definition create_batch_file :: "json list \<Rightarrow> int \<Rightarrow> world \<Rightarrow> json list \<times> world" where
  "create_batch_file timestamps limit w =
     (let limited_reversed_timestamps = slice_to limit (rev timestamps)
      in (limited_reversed_timestamps, w\<lparr>batch_files := batch_files w @ [limited_reversed_timestamps]\<rparr>))"

definition print :: "message \<Rightarrow> world \<Rightarrow> world" where
  "print msg w = w\<lparr>stdout := stdout w @ [msg]\<rparr>"

text \<open>The constructor of an engine sets its three counters to 0.\<close>

definition new_engine :: "world \<Rightarrow> world" where
  "new_engine w = w\<lparr>failed_requests := 0, failed_sql_inserts := 0, batch_call_requests := 0\<rparr>"

text \<open>The \<^verbatim>\<open>try\<close> body of the daily \<^verbatim>\<open>main\<close>. It calls the gap query with \<^verbatim>\<open>(conn, start_time, stop_time)\<close>.\<close>

definition daily_main_body :: "env \<Rightarrow> config \<Rightarrow> control \<Rightarrow> world \<Rightarrow> (exn + unit) \<times> world" where
  "daily_main_body e cfg c w =
     (case configured_start e cfg of
        None \<Rightarrow> (Inl ValueError, w)
      | Some start_time \<Rightarrow>
          (case strptime_datetime e (history_stop cfg) of
             None \<Rightarrow> (Inl ValueError, w)
           | Some stop_time \<Rightarrow>
               (case validate_time_range start_time stop_time of
                  Inl x \<Rightarrow> (Inl x, w)
                | Inr u \<Rightarrow>
                    (case generate_missing_daily_timestamps e w start_time stop_time of
                       (timestamps, w1) \<Rightarrow>
                         if timestamps \<noteq> [] then
                           (case create_batch_file (map JStr timestamps) (batch_limit cfg) w1 of
                              (batch, w2) \<Rightarrow>
                                summary_run e c ''batch.json'' (File_json (JArr batch))
                                  (new_engine (print (''Batch file created: {}'', [AStr ''batch.json'']) w2)))
                         else
                           (Inr (), print (lit ''No missing data found in the specified range.'') w1)))))"

definition hourly_main_body :: "env \<Rightarrow> config \<Rightarrow> control \<Rightarrow> world \<Rightarrow> (exn + unit) \<times> world" where
  "hourly_main_body e cfg c w =
     (case configured_start e cfg of
        None \<Rightarrow> (Inl ValueError, w)
      | Some start_time \<Rightarrow>
          (case strptime_datetime e (history_stop cfg) of
             None \<Rightarrow> (Inl ValueError, w)
           | Some stop_time \<Rightarrow>
               (case validate_time_range start_time stop_time of
                  Inl x \<Rightarrow> (Inl x, w)
                | Inr u \<Rightarrow>
                    (case generate_missing_timestamps w start_time stop_time of
                       (timestamps, w1) \<Rightarrow>
                         if timestamps \<noteq> [] then
                           (case create_batch_file (map JInt timestamps) (batch_limit cfg) w1 of
                              (batch, w2) \<Rightarrow>
                                timemachine_run e c ''batch.json'' (File_json (JArr batch))
                                  (new_engine (print (''Batch file created: {}'', [AStr ''batch.json'']) w2)))
                         else
                           (Inr (), print (lit ''No missing timestamps found in the specified range.'') w1)))))"

text \<open>
  \<^verbatim>\<open>main\<close> and the end of the process: \<^verbatim>\<open>except ValueError\<close> and
  \<^verbatim>\<open>except Exception\<close> print and return, so the process ends with status 0; a
  \<open>SystemExit\<close> is not caught and gives the process its status.
\<close>

definition finish :: "(exn + unit) \<times> world \<Rightarrow> int \<times> world" where
  "finish r =
     (case r of
        (Inr u, w) \<Rightarrow> (0, w)
      | (Inl (SystemExit n), w) \<Rightarrow> (n, w)
      | (Inl ValueError, w) \<Rightarrow> (0, print (''Configuration Error: {}'', [AExn ValueError]) w)
      | (Inl x, w) \<Rightarrow> (0, print (''Unexpected Error: {}'', [AExn x]) w))"

definition daily_main :: "env \<Rightarrow> config \<Rightarrow> control \<Rightarrow> world \<Rightarrow> int \<times> world" where
  "daily_main e cfg c w = finish (daily_main_body e cfg c w)"

definition hourly_main :: "env \<Rightarrow> config \<Rightarrow> control \<Rightarrow> world \<Rightarrow> int \<times> world" where
  "hourly_main e cfg c w = finish (hourly_main_body e cfg c w)"

section \<open>Concrete inputs\<close>

definition empty_world :: world where
  "empty_world =
     \<lparr>api_calls = [], api_call_types = [], api_script_tracking = Map.empty, sql_handling = [],
      log_file = [], daily_summary_data = [], hourly_data = [], batch_files = [], stdout = [],
      gap_queries = 0, requests_sent = 0, failed_requests = 0, failed_sql_inserts = 0, batch_call_requests = 0\<rparr>"

definition openweather_types :: "api_call_type_row list" where
  "openweather_types =
     [\<lparr>type_id = 2, type_platform = ''OpenWeather'', type_name = ''Daily Aggregation'',
       api_call_prototype = ''https://api.openweathermap.org/data/3.0/onecall/day_summary''\<rparr>,
      \<lparr>type_id = 4, type_platform = ''OpenWeather'', type_name = ''Weather Data for Timestamp'',
       api_call_prototype = ''https://api.openweathermap.org/data/3.0/onecall/timemachine''\<rparr>]"

definition summary_control :: "int \<Rightarrow> control" where
  "summary_control limit =
     \<lparr>api_call_type_id = 2, script_name = ''openweather_summary_get'', platform = ''OpenWeather'',
      api_call_alt_name = ''day_summary'', daily_limit = limit\<rparr>"

definition timemachine_control :: "int \<Rightarrow> control" where
  "timemachine_control limit =
     \<lparr>api_call_type_id = 4, script_name = ''openweather_timemachine_get'', platform = ''OpenWeather'',
      api_call_alt_name = ''timemachine'', daily_limit = limit\<rparr>"

text \<open>A logging database holding \<open>n\<close> calls of type 4 at time 1000, all answered with \<open>code\<close>.\<close>

definition world_with_calls :: "nat \<Rightarrow> int \<Rightarrow> world" where
  "world_with_calls n code =
     empty_world\<lparr>api_call_types := openweather_types,
                 api_calls := replicate n
                   \<lparr>call_timestamp = 1000, call_type_id = 4, response_code = code, retry_count = 0\<rparr>\<rparr>"

text \<open>A tracking row left by an earlier run, and a logging database that holds it.\<close>

definition started_row :: tracking_row where
  "started_row =
     \<lparr>status = lit ''started'', previous_status = None, last_checked = 0,
      requests_made_today = 7, daily_limit_reached = Some True,
      stopped_reason = None, force_restart = False\<rparr>"

definition with_tracking :: "control \<Rightarrow> tracking_row \<Rightarrow> world \<Rightarrow> world" where
  "with_tracking c r w = w\<lparr>api_script_tracking := (api_script_tracking w)(tracking_key_of c \<mapsto> r)\<rparr>"




definition sample_hourly_record :: "int \<Rightarrow> hourly_record" where
  "sample_hourly_record t =
     \<lparr>h_dt = JInt t, h_lat = JFloat 52, h_lon = JFloat 13, h_timezone = JStr ''Europe/Berlin'',
      h_timezone_offset = JInt 3600, h_sunrise = JInt (t - 7200), h_sunset = JInt (t + 7200),
      h_temp = JFloat 11, h_feels_like = JFloat 10, h_pressure = JInt 1012, h_humidity = JInt 80,
      h_dew_point = JFloat 7, h_visibility = JInt 10000, h_description = JStr ''clear sky'',
      h_clouds = JInt 0, h_wind_speed = JFloat 3, h_wind_deg = JInt 200\<rparr>"

definition sample_daily_record :: "int \<Rightarrow> daily_record" where
  "sample_daily_record t =
     \<lparr>d_lat = JFloat 52, d_lon = JFloat 13, d_tzoff = 3600, d_date = t, d_units = JStr ''metric'',
      cloud_cover_afternoon = JFloat 0, humidity_afternoon = JFloat 80, precipitation_total = JFloat 0,
      temperature_min = JFloat 5, temperature_max = JFloat 12, temperature_afternoon = JFloat 11,
      temperature_night = JFloat 6, temperature_evening = JFloat 9, temperature_morning = JFloat 7,
      pressure_afternoon = JFloat 1012, wind_max_speed = JFloat 3, wind_max_direction = JInt 200\<rparr>"

definition with_hourly :: "int list \<Rightarrow> world \<Rightarrow> world" where
  "with_hourly ts w =
     w\<lparr>hourly_data := map (\<lambda>t. \<lparr>row_data = sample_hourly_record t, location_id = 1\<rparr>) ts\<rparr>"

definition with_daily :: "int list \<Rightarrow> world \<Rightarrow> world" where
  "with_daily ts w = w\<lparr>daily_summary_data := map sample_daily_record ts\<rparr>"

text \<open>
  A sample environment: the HTTP answers are given; the session and the scripts run in
  UTC; the library functions are tabulated on the strings used below.
\<close>

definition sample_env :: "(nat \<Rightarrow> http_result) \<Rightarrow> env" where
  "sample_env answers =
     \<lparr>net = answers, insert_fault = (\<lambda>i. None), clock = (\<lambda>i. 1686000000 + int i),
      py_int = map_of [(''0'', 0), (''00'', 0), (''1'', 1), (''01'', 1), (''2'', 2), (''02'', 2), (''30'', 30)],
      strptime_date = map_of [(''1970-01-01'', 0), (''2023-06-01'', 1685577600), (''2023-06-02'', 1685664000)],
      strptime_datetime =
        map_of [(''1970-01-01 00:00:00'', 0), (''1970-01-01 01:00:00'', 3600),
                (''1970-01-01 02:00:00'', 7200), (''1970-01-02 00:00:00'', 86400)],
      to_char_date = (\<lambda>t. if t div 86400 = 0 then ''1970-01-01'' else
                          if t div 86400 = 1 then ''1970-01-02'' else ''another day''),
      session_epoch = (\<lambda>t. t), local_now = 1686000000\<rparr>"

definition no_answer :: "nat \<Rightarrow> http_result" where
  "no_answer i = Transport_error"

text \<open>Sample configurations: a range of two hours, a backwards range, and a batch limit.\<close>

definition sample_config :: "string \<Rightarrow> string \<Rightarrow> config" where
  "sample_config start_text stop_text =
     \<lparr>history_start = start_text, history_stop = stop_text, batch_limit = 10\<rparr>"

text \<open>The stored records of a key: a date for the daily store, a time and the location for the hourly one.\<close>

definition daily_rows_of :: "int \<Rightarrow> world \<Rightarrow> daily_record list" where
  "daily_rows_of k w = filter (\<lambda>r. d_date r = k) (daily_summary_data w)"

definition hourly_rows_of :: "json \<Rightarrow> world \<Rightarrow> hourly_row list" where
  "hourly_rows_of k w =
     filter (\<lambda>r. h_dt (row_data r) = k \<and> location_id r = timemachine_location_id) (hourly_data w)"

text \<open>Two store attempts in a row, the second with its own record, call id and database answer.\<close>

definition summary_store_twice ::
  "daily_record \<Rightarrow> nat option \<Rightarrow> db_fault option \<Rightarrow> daily_record \<Rightarrow> nat option \<Rightarrow> world \<Rightarrow> nat \<times> nat \<times> world" where
  "summary_store_twice data cid fault2 data2 cid2 w =
     (case summary_store_weather_data None data cid w of
        (r1, w1) \<Rightarrow> (case summary_store_weather_data fault2 data2 cid2 w1 of (r2, w2) \<Rightarrow> (r1, r2, w2)))"

definition timemachine_store_twice ::
  "hourly_record \<Rightarrow> nat option \<Rightarrow> db_fault option \<Rightarrow> hourly_record \<Rightarrow> nat option \<Rightarrow> world \<Rightarrow> nat \<times> nat \<times> world" where
  "timemachine_store_twice data cid fault2 data2 cid2 w =
     (case timemachine_store_weather_data None data cid w of
        (r1, w1) \<Rightarrow> (case timemachine_store_weather_data fault2 data2 cid2 w1 of (r2, w2) \<Rightarrow> (r1, r2, w2)))"

definition duplicate_outcome :: "nat option \<Rightarrow> sql_handling_row" where
  "duplicate_outcome cid =
     \<lparr>sql_api_call_id = cid, insert_status = lit ''failure'', sql_error_message = Some (lit ''Duplicate record'')\<rparr>"






text \<open>
  Following the spec's words: a response is unclassified when it is not 200, not a 400
  with the date-out-of-range text, not 404, not 403 and not 500 or above.
\<close>

definition unclassified :: "int \<Rightarrow> string \<Rightarrow> bool" where
  "unclassified code text =
     (code \<noteq> 200 \<and> \<not> (code = 400 \<and> contains ''out the available range'' text)
      \<and> code \<noteq> 404 \<and> code \<noteq> 403 \<and> \<not> 500 \<le> code)"

text \<open>The table \<^verbatim>\<open>api_call_types\<close> holds a prototype for the platform and call type.\<close>

definition has_prototype :: "string \<Rightarrow> string \<Rightarrow> world \<Rightarrow> bool" where
  "has_prototype plat tname w =
     (filter (\<lambda>t. type_platform t = plat \<and> type_name t = tname) (api_call_types w) \<noteq> [])"

text \<open>The tracking row of a governor's script, as an external monitor reads it.\<close>

definition tracking_of :: "control \<Rightarrow> world \<Rightarrow> tracking_row option" where
  "tracking_of c w = api_script_tracking w (tracking_key_of c)"

text \<open>A source that answers every request with the same status code, and a fresh installation.\<close>

definition always_status :: "int \<Rightarrow> nat \<Rightarrow> http_result" where
  "always_status code i = Response code ''Unauthorized'' JNull"

definition fresh_world :: world where
  "fresh_world = empty_world\<lparr>api_call_types := openweather_types\<rparr>"

section \<open>The circuit breaker\<close>

lemma ratio_gt_fifth:
  fixes f s :: nat
  assumes "0 < s"
  shows "((2 / 10 :: rat) < of_nat f / of_nat s) = (s < 5 * f)"
proof -
  have pos: "(0 :: rat) < of_nat s" using assms by simp
  have "((2 / 10 :: rat) < of_nat f / of_nat s) = ((2 / 10 :: rat) * of_nat s < of_nat f)"
    using pos by (simp add: pos_less_divide_eq)
  also have "\<dots> = ((of_nat s :: rat) < 5 * of_nat f)" by auto
  also have "\<dots> = ((of_nat s :: rat) < of_nat (5 * f))" by simp
  also have "\<dots> = (s < 5 * f)" by (simp only: of_nat_less_iff)
  finally show ?thesis .
qed

text \<open>
  C1, as the code has it. For every platform (every governor \<open>c\<close>), every time and every
  logging database, the circuit is reported open exactly when more than 10 calls failed in
  the trailing 2 minutes, at least one succeeded, and failed / succeeded exceeds 0.20
  (that is, succeeded < 5 * failed). With no success in the window the circuit is
  reported closed, however many calls failed.
\<close>

theorem check_failure_rate_open_iff:
  "fst (check_failure_rate c now w) =
     (10 < failure_count c now w \<and> 0 < success_count c now w
      \<and> success_count c now w < 5 * failure_count c now w)"
proof -
  let ?f = "failure_count c now w" and ?s = "success_count c now w"
  have unfolded: "fst (check_failure_rate c now w) =
      (10 < ?f \<and> (0 < ?s \<and> (2 / 10 :: rat) < of_nat ?f / of_nat ?s))"
    unfolding check_failure_rate_def Let_def by (simp only: if_distrib [of fst] fst_conv if_bool_eq_conj) blast
  show ?thesis
  proof (cases "0 < ?s")
    case True
    from ratio_gt_fifth [OF True, of ?f] show ?thesis
      unfolding unfolded by blast
  next
    case False
    then show ?thesis unfolding unfolded by blast
  qed
qed

text \<open>
  C1 as stated fails: with 15 failed calls and no successful call in the window, the check
  reports closed.
\<close>

theorem check_failure_rate_zero_success_closed:
  "failure_count (timemachine_control 10) 1060 (world_with_calls 15 500) = 15
   \<and> success_count (timemachine_control 10) 1060 (world_with_calls 15 500) = 0
   \<and> fst (check_failure_rate (timemachine_control 10) 1060 (world_with_calls 15 500)) = False"
  by (simp add: check_failure_rate_def failure_count_def success_count_def calls_since_def
      platform_type_ids_def world_with_calls_def empty_world_def openweather_types_def
      timemachine_control_def Let_def)

section \<open>The daily cap\<close>

lemma tracking_log_event [simp]: "api_script_tracking (log_event e m w) = api_script_tracking w"
  by (simp add: log_event_def)

lemma tracking_insert_tracking_log:
  "api_script_tracking (insert_tracking_log now s p a st reason force w) (s, p, a) =
     Some (case api_script_tracking w (s, p, a) of
             None \<Rightarrow> \<lparr>status = st, previous_status = None, last_checked = now,
                      requests_made_today = 0, daily_limit_reached = None,
                      stopped_reason = reason, force_restart = force\<rparr>
           | Some r \<Rightarrow> r\<lparr>status := st, previous_status := Some (status r), last_checked := now,
                        stopped_reason := reason, force_restart := force\<rparr>)"
  by (simp add: insert_tracking_log_def Let_def split: option.splits)

lemma tracking_update_tracking:
  "api_script_tracking (update_tracking k f w) k = map_option f (api_script_tracking w k)"
  by (simp add: update_tracking_def split: option.splits)

text \<open>
  C8, as the code has it. When the count of calls since the most recent UTC midnight is at
  least the daily limit, the check returns true and upserts the tracking row with status
  \<open>stopped-warn\<close>, reason \<open>Daily limit reached\<close>, no forced restart and the old
  status as previous status; the \<^verbatim>\<open>UPDATE\<close> before it sets
  \<open>daily_limit_reached\<close> on the row when there was one. When the count is 0 and the limit
  is positive, the check returns false and the \<^verbatim>\<open>UPDATE\<close> clears the flag and
  the counter of the row when there is one, and creates no row.
\<close>

theorem check_daily_limit_reached_transitions:
  fixes c now w
  defines "k \<equiv> tracking_key_of c"
  defines "before \<equiv> api_script_tracking w k"
  defines "after \<equiv> api_script_tracking (snd (check_daily_limit_reached c now w)) k"
  shows "(daily_limit c \<le> int (requests_today c now w) \<longrightarrow>
            fst (check_daily_limit_reached c now w) = True
          \<and> map_option status after = Some (lit ''stopped-warn'')
          \<and> map_option stopped_reason after = Some (Some (lit ''Daily limit reached''))
          \<and> map_option force_restart after = Some False
          \<and> map_option previous_status after = Some (map_option status before)
          \<and> (before \<noteq> None \<longrightarrow> map_option daily_limit_reached after = Some (Some True)))
       \<and> (requests_today c now w = 0 \<and> 0 < daily_limit c \<longrightarrow>
            fst (check_daily_limit_reached c now w) = False
          \<and> after = map_option (\<lambda>r. r\<lparr>requests_made_today := 0, daily_limit_reached := Some False,
                                         last_checked := now\<rparr>) before)"
proof -
  let ?n = "requests_today c now w"
  have reached: "daily_limit c \<le> int ?n \<Longrightarrow>
      fst (check_daily_limit_reached c now w) = True
      \<and> after = Some (case map_option (\<lambda>r. r\<lparr>daily_limit_reached := Some True, last_checked := now\<rparr>) before of
             None \<Rightarrow> \<lparr>status = lit ''stopped-warn'', previous_status = None, last_checked = now,
                      requests_made_today = 0, daily_limit_reached = None,
                      stopped_reason = Some (lit ''Daily limit reached''), force_restart = False\<rparr>
           | Some r \<Rightarrow> r\<lparr>status := lit ''stopped-warn'', previous_status := Some (status r),
                        last_checked := now, stopped_reason := Some (lit ''Daily limit reached''),
                        force_restart := False\<rparr>)"
    unfolding after_def before_def k_def
    by (simp add: check_daily_limit_reached_def Let_def tracking_key_of_def
        tracking_insert_tracking_log tracking_update_tracking)
  have reset: "?n = 0 \<Longrightarrow> 0 < daily_limit c \<Longrightarrow>
      fst (check_daily_limit_reached c now w) = False
      \<and> after = map_option (\<lambda>r. r\<lparr>requests_made_today := 0, daily_limit_reached := Some False,
                                     last_checked := now\<rparr>) before"
    unfolding after_def before_def k_def
    by (simp add: check_daily_limit_reached_def Let_def tracking_update_tracking)
  show ?thesis
  proof (intro conjI impI)
    assume h: "daily_limit c \<le> int ?n"
    note r = reached [OF h]
    show "fst (check_daily_limit_reached c now w) = True" using r by blast
    show "map_option status after = Some (lit ''stopped-warn'')"
      using r by (cases before) simp_all
    show "map_option stopped_reason after = Some (Some (lit ''Daily limit reached''))"
      using r by (cases before) simp_all
    show "map_option force_restart after = Some False"
      using r by (cases before) simp_all
    show "map_option previous_status after = Some (map_option status before)"
      using r by (cases before) simp_all
    show "map_option daily_limit_reached after = Some (Some True)" if "before \<noteq> None"
      using r that by (cases before) simp_all
  next
    assume h: "?n = 0 \<and> 0 < daily_limit c"
    then show "fst (check_daily_limit_reached c now w) = False" using reset by blast
    from h show "after = map_option (\<lambda>r. r\<lparr>requests_made_today := 0, daily_limit_reached := Some False,
                                         last_checked := now\<rparr>) before" using reset by blast
  qed
qed

theorem check_daily_limit_reached_transitions_witness:
  "daily_limit (timemachine_control 3)
     \<le> int (requests_today (timemachine_control 3) 1060
               (with_tracking (timemachine_control 3) started_row (world_with_calls 3 200)))
   \<and> fst (check_daily_limit_reached (timemachine_control 3) 1060
            (with_tracking (timemachine_control 3) started_row (world_with_calls 3 200))) = True
   \<and> map_option daily_limit_reached
        (api_script_tracking
           (snd (check_daily_limit_reached (timemachine_control 3) 1060
                   (with_tracking (timemachine_control 3) started_row (world_with_calls 3 200))))
           (tracking_key_of (timemachine_control 3))) = Some (Some True)
   \<and> requests_today (timemachine_control 3) 1060
        (with_tracking (timemachine_control 3) started_row (world_with_calls 0 200)) = 0
   \<and> 0 < daily_limit (timemachine_control 3)
   \<and> fst (check_daily_limit_reached (timemachine_control 3) 1060
            (with_tracking (timemachine_control 3) started_row (world_with_calls 0 200))) = False
   \<and> map_option daily_limit_reached
        (api_script_tracking
           (snd (check_daily_limit_reached (timemachine_control 3) 1060
                   (with_tracking (timemachine_control 3) started_row (world_with_calls 0 200))))
           (tracking_key_of (timemachine_control 3))) = Some (Some False)"
proof -
  let ?c = "timemachine_control 3"
  let ?w3 = "with_tracking ?c started_row (world_with_calls 3 200)"
  let ?w0 = "with_tracking ?c started_row (world_with_calls 0 200)"
  have n3: "requests_today ?c 1060 ?w3 = 3"
    by (simp add: requests_today_def reset_time_utc_def with_tracking_def world_with_calls_def
        empty_world_def timemachine_control_def)
  have n0: "requests_today ?c 1060 ?w0 = 0"
    by (simp add: requests_today_def with_tracking_def world_with_calls_def empty_world_def)
  have d: "daily_limit ?c = 3" by (simp add: timemachine_control_def)
  have b3: "api_script_tracking ?w3 (tracking_key_of ?c) = Some started_row"
    by (simp add: with_tracking_def)
  have b0: "api_script_tracking ?w0 (tracking_key_of ?c) = Some started_row"
    by (simp add: with_tracking_def)
  from check_daily_limit_reached_transitions [of ?c 1060 ?w3]
       check_daily_limit_reached_transitions [of ?c 1060 ?w0]
  show ?thesis
    unfolding n3 n0 d b3 b0 by simp
qed

text \<open>
  C8 as stated fails where both of its cases apply: with a daily limit of 0 and no call
  today, on a fresh logging database, the check signals halt, and the row it creates
  holds the default of \<open>daily_limit_reached\<close>, not true.
\<close>

theorem check_daily_limit_zero_limit_halts:
  "requests_today (summary_control 0) 1060 empty_world = 0
   \<and> fst (check_daily_limit_reached (summary_control 0) 1060 empty_world) = True
   \<and> map_option daily_limit_reached
        (api_script_tracking (snd (check_daily_limit_reached (summary_control 0) 1060 empty_world))
           (tracking_key_of (summary_control 0))) = Some None"
  by (simp add: check_daily_limit_reached_def requests_today_def Let_def empty_world_def
      summary_control_def tracking_key_of_def tracking_insert_tracking_log tracking_update_tracking
      update_tracking_def insert_tracking_log_def log_event_def)

section \<open>The gap detector\<close>













section \<open>The batch file and the configured range\<close>



lemma finish_ValueError: "finish (Inl ValueError, w) = (0, print (''Configuration Error: {}'', [AExn ValueError]) w)"
  by (simp add: finish_def)

lemma finish_SystemExit: "finish (Inl (SystemExit n), w) = (n, w)"
  by (simp add: finish_def)

lemma finish_TypeError: "finish (Inl TypeError, w) = (0, print (''Unexpected Error: {}'', [AExn TypeError]) w)"
  by (simp add: finish_def)


lemma sample_strptime_datetime:
  "strptime_datetime (sample_env a) ''1970-01-01 00:00:00'' = Some 0"
  "strptime_datetime (sample_env a) ''1970-01-01 01:00:00'' = Some 3600"
  "strptime_datetime (sample_env a) ''1970-01-01 02:00:00'' = Some 7200"
  by (simp_all add: sample_env_def)

lemma sample_configured_start:
  "configured_start (sample_env a) (sample_config ''1970-01-01 01:00:00'' s) = Some 3600"
  "configured_start (sample_env a) (sample_config ''1970-01-01 00:00:00'' s) = Some 0"
  by (simp_all add: configured_start_def sample_config_def sample_env_def)


text \<open>
  C6, as the code has it. When the configured start is not after the configured stop,
  \<^verbatim>\<open>validate_time_range\<close> raises \<open>ValueError\<close>; \<^verbatim>\<open>main\<close> catches it, prints
  the configuration error and returns: no gap query is executed, no batch file is
  written, no request is sent, and the process ends with status 0.
\<close>

theorem backwards_range_reported:
  assumes "configured_start e cfg = Some start_time"
    and "strptime_datetime e (history_stop cfg) = Some stop_time"
    and "start_time \<le> stop_time"
  shows "validate_time_range start_time stop_time = Inl ValueError
       \<and> daily_main e cfg c w = (0, print (''Configuration Error: {}'', [AExn ValueError]) w)
       \<and> hourly_main e cfg c w = (0, print (''Configuration Error: {}'', [AExn ValueError]) w)
       \<and> gap_queries (snd (daily_main e cfg c w)) = gap_queries w
       \<and> batch_files (snd (daily_main e cfg c w)) = batch_files w
       \<and> requests_sent (snd (daily_main e cfg c w)) = requests_sent w
       \<and> gap_queries (snd (hourly_main e cfg c w)) = gap_queries w
       \<and> batch_files (snd (hourly_main e cfg c w)) = batch_files w
       \<and> requests_sent (snd (hourly_main e cfg c w)) = requests_sent w"
  using assms
  by (simp add: daily_main_def daily_main_body_def hourly_main_def hourly_main_body_def
      validate_time_range_def finish_ValueError print_def)

theorem backwards_range_reported_witness:
  "configured_start (sample_env no_answer) (sample_config ''1970-01-01 00:00:00'' ''1970-01-01 01:00:00'') = Some 0
   \<and> strptime_datetime (sample_env no_answer)
        (history_stop (sample_config ''1970-01-01 00:00:00'' ''1970-01-01 01:00:00'')) = Some 3600
   \<and> (0 :: int) \<le> 3600
   \<and> stdout (snd (daily_main (sample_env no_answer)
                     (sample_config ''1970-01-01 00:00:00'' ''1970-01-01 01:00:00'')
                     (summary_control 10) empty_world))
      = [(''Configuration Error: {}'', [AExn ValueError])]
   \<and> gap_queries (snd (hourly_main (sample_env no_answer)
                          (sample_config ''1970-01-01 00:00:00'' ''1970-01-01 01:00:00'')
                          (timemachine_control 10) empty_world)) = 0"
proof -
  let ?e = "sample_env no_answer"
  let ?cfg = "sample_config ''1970-01-01 00:00:00'' ''1970-01-01 01:00:00''"
  have stop: "strptime_datetime ?e (history_stop ?cfg) = Some 3600"
    by (simp add: sample_config_def sample_strptime_datetime)
  have le: "(0 :: int) \<le> 3600" by simp
  from backwards_range_reported [OF sample_configured_start(2) stop le, of "summary_control 10" empty_world]
       backwards_range_reported [OF sample_configured_start(2) stop le, of "timemachine_control 10" empty_world]
  show ?thesis
    using stop by (simp add: sample_configured_start print_def empty_world_def)
qed

text \<open>
  C6 as stated fails: with start equal to stop the error is raised and reported, and the
  process ends with status 0.
\<close>

theorem backwards_range_exit_status_zero:
  "validate_time_range 0 0 = Inl ValueError
   \<and> fst (daily_main (sample_env no_answer) (sample_config ''1970-01-01 00:00:00'' ''1970-01-01 00:00:00'')
            (summary_control 10) empty_world) = 0
   \<and> fst (hourly_main (sample_env no_answer) (sample_config ''1970-01-01 00:00:00'' ''1970-01-01 00:00:00'')
            (timemachine_control 10) empty_world) = 0"
  by (simp add: daily_main_def daily_main_body_def hourly_main_def hourly_main_body_def
      validate_time_range_def finish_ValueError configured_start_def sample_config_def sample_env_def)

section \<open>Idempotent store\<close>

lemma store_failure_effect:
  "store_failure cid event logged err w =
     (0, w\<lparr>log_file := log_file w @ [(event, logged)],
           sql_handling := sql_handling w @
             [\<lparr>sql_api_call_id = cid, insert_status = lit ''failure'', sql_error_message = Some err\<rparr>],
           failed_sql_inserts := Suc (failed_sql_inserts w)\<rparr>)"
  by (simp add: store_failure_def count_failed_insert_def log_sql_insert_def log_event_def)

lemma summary_store_existing:
  assumes "d_date data \<in> set (map d_date (daily_summary_data w))"
  shows "summary_store_weather_data fault data cid w =
     (0, w\<lparr>log_file := log_file w @ [(''data_exists'', (''Record already exists for date {}'', [AInt (d_date data)]))],
           sql_handling := sql_handling w @ [duplicate_outcome cid],
           failed_sql_inserts := Suc (failed_sql_inserts w)\<rparr>)"
  using assms by (simp add: summary_store_weather_data_def store_failure_effect duplicate_outcome_def)

lemma summary_store_fresh:
  assumes "d_date data \<notin> set (map d_date (daily_summary_data w))"
  shows "summary_store_weather_data None data cid w =
     (1, w\<lparr>daily_summary_data := daily_summary_data w @ [data],
           sql_handling := sql_handling w @
             [\<lparr>sql_api_call_id = cid,
               insert_status = (''Successfully inserted data for date {}'', [AInt (d_date data)]),
               sql_error_message = None\<rparr>],
           log_file := log_file w @ [(''sql_insert_success'', (''Record inserted for date {}'', [AInt (d_date data)]))]\<rparr>)"
  using assms by (simp add: summary_store_weather_data_def log_sql_insert_def log_event_def)

lemma timemachine_store_existing:
  assumes "hourly_exists (h_dt data) w"
  shows "timemachine_store_weather_data fault data cid w =
     (0, w\<lparr>log_file := log_file w @ [(''data_exists'', (''Record already exists for timestamp {}'', [AJson (h_dt data)]))],
           sql_handling := sql_handling w @ [duplicate_outcome cid],
           failed_sql_inserts := Suc (failed_sql_inserts w)\<rparr>)"
  using assms by (simp add: timemachine_store_weather_data_def store_failure_effect duplicate_outcome_def)

lemma timemachine_store_fresh:
  assumes "\<not> hourly_exists (h_dt data) w"
  shows "timemachine_store_weather_data None data cid w =
     (1, w\<lparr>hourly_data := hourly_data w @ [\<lparr>row_data = data, location_id = timemachine_location_id\<rparr>],
           sql_handling := sql_handling w @
             [\<lparr>sql_api_call_id = cid,
               insert_status = (''Successfully inserted timestamp {}'', [AJson (h_dt data)]),
               sql_error_message = None\<rparr>],
           log_file := log_file w @ [(''sql_insert_success'', (''Record inserted for timestamp {}'', [AJson (h_dt data)]))]\<rparr>)"
  using assms by (simp add: timemachine_store_weather_data_def log_sql_insert_def log_event_def)

lemma daily_rows_of_absent:
  "k \<notin> set (map d_date (daily_summary_data w)) \<Longrightarrow> daily_rows_of k w = []"
  by (auto simp: daily_rows_of_def filter_empty_conv)

lemma hourly_rows_of_absent:
  "\<not> hourly_exists k w \<Longrightarrow> hourly_rows_of k w = []"
  by (auto simp: hourly_rows_of_def hourly_exists_def filter_empty_conv)

text \<open>
  C7. Store a record for a key that has no record, the database accepting the insert,
  then store for the same key again (any record and call id, whatever the database would
  answer): the first attempt returns 1, the second returns 0, is recorded as the outcome
  \<open>failure\<close> / \<open>Duplicate record\<close> and counted in \<open>failed_sql_inserts\<close>, and the
  table holds exactly one record of the key, the first one. The store functions return
  to the caller in every case of the model (their \<^verbatim>\<open>except Exception\<close> catches what
  the insert raises). The daily key is the date alone; the hourly key is the time and
  the location.
\<close>

theorem store_twice_keeps_one_record:
  "(d_date data2 = d_date data \<and> d_date data \<notin> set (map d_date (daily_summary_data w)) \<longrightarrow>
      fst (summary_store_twice data cid fault2 data2 cid2 w) = 1
    \<and> fst (snd (summary_store_twice data cid fault2 data2 cid2 w)) = 0
    \<and> daily_rows_of (d_date data) (snd (snd (summary_store_twice data cid fault2 data2 cid2 w))) = [data]
    \<and> daily_summary_data (snd (snd (summary_store_twice data cid fault2 data2 cid2 w)))
        = daily_summary_data w @ [data]
    \<and> last (sql_handling (snd (snd (summary_store_twice data cid fault2 data2 cid2 w))))
        = duplicate_outcome cid2
    \<and> failed_sql_inserts (snd (snd (summary_store_twice data cid fault2 data2 cid2 w)))
        = Suc (failed_sql_inserts w))
 \<and> (h_dt hdata2 = h_dt hdata \<and> \<not> hourly_exists (h_dt hdata) w \<longrightarrow>
      fst (timemachine_store_twice hdata cid fault2 hdata2 cid2 w) = 1
    \<and> fst (snd (timemachine_store_twice hdata cid fault2 hdata2 cid2 w)) = 0
    \<and> hourly_rows_of (h_dt hdata) (snd (snd (timemachine_store_twice hdata cid fault2 hdata2 cid2 w)))
        = [\<lparr>row_data = hdata, location_id = timemachine_location_id\<rparr>]
    \<and> hourly_data (snd (snd (timemachine_store_twice hdata cid fault2 hdata2 cid2 w)))
        = hourly_data w @ [\<lparr>row_data = hdata, location_id = timemachine_location_id\<rparr>]
    \<and> last (sql_handling (snd (snd (timemachine_store_twice hdata cid fault2 hdata2 cid2 w))))
        = duplicate_outcome cid2
    \<and> failed_sql_inserts (snd (snd (timemachine_store_twice hdata cid fault2 hdata2 cid2 w)))
        = Suc (failed_sql_inserts w))
 \<and> (d_date data \<in> set (map d_date (daily_summary_data w)) \<longrightarrow>
      fst (summary_store_weather_data fault2 data cid w) = 0
    \<and> daily_summary_data (snd (summary_store_weather_data fault2 data cid w)) = daily_summary_data w
    \<and> last (sql_handling (snd (summary_store_weather_data fault2 data cid w))) = duplicate_outcome cid)
 \<and> (hourly_exists (h_dt hdata) w \<longrightarrow>
      fst (timemachine_store_weather_data fault2 hdata cid w) = 0
    \<and> hourly_data (snd (timemachine_store_weather_data fault2 hdata cid w)) = hourly_data w
    \<and> last (sql_handling (snd (timemachine_store_weather_data fault2 hdata cid w))) = duplicate_outcome cid)"
proof (intro conjI impI)
  assume a: "d_date data2 = d_date data \<and> d_date data \<notin> set (map d_date (daily_summary_data w))"
  define w1 where "w1 = snd (summary_store_weather_data None data cid w)"
  have first: "summary_store_weather_data None data cid w = (1, w1)"
    unfolding w1_def using a by (simp add: summary_store_fresh)
  have rows1: "daily_summary_data w1 = daily_summary_data w @ [data]"
    unfolding w1_def using a by (simp add: summary_store_fresh)
  have frame1: "failed_sql_inserts w1 = failed_sql_inserts w"
    unfolding w1_def using a by (simp add: summary_store_fresh)
  have present: "d_date data2 \<in> set (map d_date (daily_summary_data w1))"
    using a by (simp add: rows1)
  note second = summary_store_existing [OF present, of fault2 cid2]
  have twice: "summary_store_twice data cid fault2 data2 cid2 w =
      (1, 0, w1\<lparr>log_file := log_file w1 @
                     [(''data_exists'', (''Record already exists for date {}'', [AInt (d_date data2)]))],
                  sql_handling := sql_handling w1 @ [duplicate_outcome cid2],
                  failed_sql_inserts := Suc (failed_sql_inserts w1)\<rparr>)"
    unfolding summary_store_twice_def by (simp add: first second)
  show "fst (summary_store_twice data cid fault2 data2 cid2 w) = 1"
    by (simp add: twice)
  show "fst (snd (summary_store_twice data cid fault2 data2 cid2 w)) = 0"
    by (simp add: twice)
  show "daily_summary_data (snd (snd (summary_store_twice data cid fault2 data2 cid2 w)))
      = daily_summary_data w @ [data]"
    by (simp add: twice rows1)
  then show "daily_rows_of (d_date data) (snd (snd (summary_store_twice data cid fault2 data2 cid2 w))) = [data]"
    using a daily_rows_of_absent [of "d_date data" w] by (simp add: daily_rows_of_def)
  show "last (sql_handling (snd (snd (summary_store_twice data cid fault2 data2 cid2 w))))
      = duplicate_outcome cid2"
    by (simp add: twice)
  show "failed_sql_inserts (snd (snd (summary_store_twice data cid fault2 data2 cid2 w)))
      = Suc (failed_sql_inserts w)"
    by (simp add: twice frame1)
next
  assume a: "h_dt hdata2 = h_dt hdata \<and> \<not> hourly_exists (h_dt hdata) w"
  define w1 where "w1 = snd (timemachine_store_weather_data None hdata cid w)"
  let ?row = "\<lparr>row_data = hdata, location_id = timemachine_location_id\<rparr>"
  have first: "timemachine_store_weather_data None hdata cid w = (1, w1)"
    unfolding w1_def using a by (simp add: timemachine_store_fresh)
  have rows1: "hourly_data w1 = hourly_data w @ [?row]"
    unfolding w1_def using a by (simp add: timemachine_store_fresh)
  have frame1: "failed_sql_inserts w1 = failed_sql_inserts w"
    unfolding w1_def using a by (simp add: timemachine_store_fresh)
  have present: "hourly_exists (h_dt hdata2) w1"
    using a by (simp add: hourly_exists_def rows1)
  note second = timemachine_store_existing [OF present, of fault2 cid2]
  have twice: "timemachine_store_twice hdata cid fault2 hdata2 cid2 w =
      (1, 0, w1\<lparr>log_file := log_file w1 @
                     [(''data_exists'', (''Record already exists for timestamp {}'', [AJson (h_dt hdata2)]))],
                  sql_handling := sql_handling w1 @ [duplicate_outcome cid2],
                  failed_sql_inserts := Suc (failed_sql_inserts w1)\<rparr>)"
    unfolding timemachine_store_twice_def by (simp add: first second)
  show "fst (timemachine_store_twice hdata cid fault2 hdata2 cid2 w) = 1"
    by (simp add: twice)
  show "fst (snd (timemachine_store_twice hdata cid fault2 hdata2 cid2 w)) = 0"
    by (simp add: twice)
  show "hourly_data (snd (snd (timemachine_store_twice hdata cid fault2 hdata2 cid2 w)))
      = hourly_data w @ [?row]"
    by (simp add: twice rows1)
  then show "hourly_rows_of (h_dt hdata) (snd (snd (timemachine_store_twice hdata cid fault2 hdata2 cid2 w)))
      = [?row]"
    using a hourly_rows_of_absent [of "h_dt hdata" w] by (simp add: hourly_rows_of_def)
  show "last (sql_handling (snd (snd (timemachine_store_twice hdata cid fault2 hdata2 cid2 w))))
      = duplicate_outcome cid2"
    by (simp add: twice)
  show "failed_sql_inserts (snd (snd (timemachine_store_twice hdata cid fault2 hdata2 cid2 w)))
      = Suc (failed_sql_inserts w)"
    by (simp add: twice frame1)
next
  assume a: "d_date data \<in> set (map d_date (daily_summary_data w))"
  note dup = summary_store_existing [OF a, of fault2 cid]
  show "fst (summary_store_weather_data fault2 data cid w) = 0" by (simp add: dup)
  show "daily_summary_data (snd (summary_store_weather_data fault2 data cid w)) = daily_summary_data w"
    by (simp add: dup)
  show "last (sql_handling (snd (summary_store_weather_data fault2 data cid w))) = duplicate_outcome cid"
    by (simp add: dup)
next
  assume a: "hourly_exists (h_dt hdata) w"
  note dup = timemachine_store_existing [OF a, of fault2 cid]
  show "fst (timemachine_store_weather_data fault2 hdata cid w) = 0" by (simp add: dup)
  show "hourly_data (snd (timemachine_store_weather_data fault2 hdata cid w)) = hourly_data w"
    by (simp add: dup)
  show "last (sql_handling (snd (timemachine_store_weather_data fault2 hdata cid w))) = duplicate_outcome cid"
    by (simp add: dup)
qed

theorem store_twice_keeps_one_record_witness:
  "d_date ((sample_daily_record 86400)\<lparr>temperature_max := JFloat 30\<rparr>) = d_date (sample_daily_record 86400)
   \<and> d_date (sample_daily_record 86400) \<notin> set (map d_date (daily_summary_data (with_daily [0] empty_world)))
   \<and> daily_rows_of 86400
        (snd (snd (summary_store_twice (sample_daily_record 86400) (Some 1) (Some IntegrityError)
                     ((sample_daily_record 86400)\<lparr>temperature_max := JFloat 30\<rparr>) (Some 2)
                     (with_daily [0] empty_world))))
      = [sample_daily_record 86400]
   \<and> h_dt ((sample_hourly_record 3600)\<lparr>h_temp := JFloat 30\<rparr>) = h_dt (sample_hourly_record 3600)
   \<and> \<not> hourly_exists (h_dt (sample_hourly_record 3600)) (with_daily [0] empty_world)
   \<and> fst (snd (timemachine_store_twice (sample_hourly_record 3600) (Some 1) (Some IntegrityError)
                  ((sample_hourly_record 3600)\<lparr>h_temp := JFloat 30\<rparr>) (Some 2)
                  (with_daily [0] empty_world))) = 0
   \<and> d_date (sample_daily_record 0)
        \<in> set (map d_date (daily_summary_data (with_daily [0] (with_hourly [3600] empty_world))))
   \<and> daily_summary_data
        (snd (summary_store_weather_data None (sample_daily_record 0) (Some 3)
                (with_daily [0] (with_hourly [3600] empty_world))))
      = [sample_daily_record 0]
   \<and> hourly_exists (h_dt (sample_hourly_record 3600)) (with_daily [0] (with_hourly [3600] empty_world))
   \<and> fst (timemachine_store_weather_data None (sample_hourly_record 3600) (Some 3)
            (with_daily [0] (with_hourly [3600] empty_world))) = 0"
proof -
  let ?v = "with_daily [0] (with_hourly [3600] empty_world)"
  have dv: "daily_summary_data ?v = [sample_daily_record 0]"
    by (simp add: with_daily_def)
  have present: "d_date (sample_daily_record 0) \<in> set (map d_date (daily_summary_data ?v))"
    by (simp add: dv)
  have hpresent: "hourly_exists (h_dt (sample_hourly_record 3600)) ?v"
    by (simp add: hourly_exists_def with_daily_def with_hourly_def timemachine_location_id_def)
  let ?w = "with_daily [0] empty_world"
  have k: "d_date (sample_daily_record 86400) = 86400" "h_dt (sample_hourly_record 3600) = JInt 3600"
    by (simp_all add: sample_daily_record_def sample_hourly_record_def)
  have absent: "d_date (sample_daily_record 86400) \<notin> set (map d_date (daily_summary_data ?w))"
    by (simp add: with_daily_def empty_world_def sample_daily_record_def)
  have habsent: "\<not> hourly_exists (h_dt (sample_hourly_record 3600)) ?w"
    by (simp add: hourly_exists_def with_daily_def empty_world_def)
  from store_twice_keeps_one_record [of "(sample_daily_record 86400)\<lparr>temperature_max := JFloat 30\<rparr>"
      "sample_daily_record 86400" ?w "Some 1" "Some IntegrityError" "Some 2"
      "(sample_hourly_record 3600)\<lparr>h_temp := JFloat 30\<rparr>" "sample_hourly_record 3600"]
    store_twice_keeps_one_record [of _ "sample_daily_record 0" ?v "Some 3" None _ _
      "sample_hourly_record 3600"]
    absent habsent present hpresent
  show ?thesis by (simp add: k dv)
qed

section \<open>Payload validation\<close>












section \<open>The remote call and the loop of run\<close>

lemma log_event_frame [simp]:
  "requests_sent (log_event ev m w) = requests_sent w"
  "failed_requests (log_event ev m w) = failed_requests w"
  "api_calls (log_event ev m w) = api_calls w"
  "api_call_types (log_event ev m w) = api_call_types w"
  by (simp_all add: log_event_def)

lemma send_request_frame [simp]:
  "requests_sent (send_request w) = Suc (requests_sent w)"
  "failed_requests (send_request w) = failed_requests w"
  "api_calls (send_request w) = api_calls w"
  "api_script_tracking (send_request w) = api_script_tracking w"
  by (simp_all add: send_request_def)

lemma count_failed_request_frame [simp]:
  "requests_sent (count_failed_request w) = requests_sent w"
  "failed_requests (count_failed_request w) = Suc (failed_requests w)"
  "api_calls (count_failed_request w) = api_calls w"
  "api_script_tracking (count_failed_request w) = api_script_tracking w"
  by (simp_all add: count_failed_request_def)

lemma track_frame [simp]:
  "requests_sent (track c now st reason force w) = requests_sent w"
  "failed_requests (track c now st reason force w) = failed_requests w"
  "api_calls (track c now st reason force w) = api_calls w"
  by (simp_all add: track_def insert_tracking_log_def Let_def)

lemma update_tracking_frame [simp]:
  "requests_sent (update_tracking k f w) = requests_sent w"
  "failed_requests (update_tracking k f w) = failed_requests w"
  "api_calls (update_tracking k f w) = api_calls w"
  by (simp_all add: update_tracking_def split: option.splits)

lemma update_requests_made_today_frame [simp]:
  "requests_sent (update_requests_made_today c now w) = requests_sent w"
  "failed_requests (update_requests_made_today c now w) = failed_requests w"
  "api_calls (update_requests_made_today c now w) = api_calls w"
  by (simp_all add: update_requests_made_today_def Let_def)

lemma log_api_call_frame [simp]:
  "requests_sent (snd (log_api_call ts tid code retries w)) = requests_sent w"
  "failed_requests (snd (log_api_call ts tid code retries w)) = failed_requests w"
  "api_script_tracking (snd (log_api_call ts tid code retries w)) = api_script_tracking w"
  "fst (log_api_call ts tid code retries w) = Suc (length (api_calls w))"
  "api_calls (snd (log_api_call ts tid code retries w)) = api_calls w @
     [\<lparr>call_timestamp = ts, call_type_id = tid, response_code = code, retry_count = retries\<rparr>]"
  by (simp_all add: log_api_call_def)

lemma critical_exit_frame [simp]:
  "fst (critical_exit c now ev m w) = Inl (SystemExit 1)"
  "requests_sent (snd (critical_exit c now ev m w)) = requests_sent w"
  "failed_requests (snd (critical_exit c now ev m w)) = failed_requests w"
  by (simp_all add: critical_exit_def)

text \<open>The tracking row after an upsert followed by the count of the request.\<close>

lemma tracking_track:
  "tracking_of c (track c now st reason force w) =
     Some (case tracking_of c w of
             None \<Rightarrow> \<lparr>status = st, previous_status = None, last_checked = now,
                      requests_made_today = 0, daily_limit_reached = None,
                      stopped_reason = reason, force_restart = force\<rparr>
           | Some r \<Rightarrow> r\<lparr>status := st, previous_status := Some (status r), last_checked := now,
                        stopped_reason := reason, force_restart := force\<rparr>)"
  by (simp add: tracking_of_def track_def tracking_key_of_def tracking_insert_tracking_log)

lemma tracking_counted:
  "tracking_of c (update_requests_made_today c now w) =
     map_option (\<lambda>r. r\<lparr>requests_made_today := requests_made_today r + 1, last_checked := now\<rparr>)
       (tracking_of c w)"
  by (simp add: tracking_of_def update_requests_made_today_def Let_def tracking_update_tracking)

lemma tracked_and_counted:
  "map_option status (tracking_of c (update_requests_made_today c now (track c now st reason force w))) = Some st"
  "map_option stopped_reason (tracking_of c (update_requests_made_today c now (track c now st reason force w)))
     = Some reason"
  "map_option force_restart (tracking_of c (update_requests_made_today c now (track c now st reason force w)))
     = Some force"
  by (simp_all add: tracking_counted tracking_track split: option.splits)

lemma get_api_prototype_found:
  assumes "has_prototype plat tname w"
  shows "\<exists>prototype. get_api_prototype plat tname w = (Inr prototype, w)"
  using assms unfolding has_prototype_def get_api_prototype_def
  by (cases "filter (\<lambda>t. type_platform t = plat \<and> type_name t = tname) (api_call_types w)") simp_all

text \<open>The daily loop of attempts when every request fails in transport.\<close>

lemma summary_attempts_exhausted:
  assumes "net e (requests_sent w) = Transport_error"
    and "net e (Suc (requests_sent w)) = Transport_error"
    and "net e (Suc (Suc (requests_sent w))) = Transport_error"
  shows "\<exists>w1. summary_attempts e c date total_dates completed_dates now 0 0 w =
           (Inr (Returned None None),
            update_requests_made_today c now
              (track c now (lit ''Processing'')
                 (Some (''Error fetching data after {} attempts. Skipping this date: {}'',
                        [AInt 3, AStr date])) True w1))
         \<and> requests_sent w1 = requests_sent w + 3
         \<and> failed_requests w1 = failed_requests w
         \<and> api_calls w1 = api_calls w"
proof -
  define m1 where "m1 = (''Error fetching data: {}. Retrying ({}/{})...'',
                     [AExn RequestException, AInt (int (Suc 0)), AInt (int max_retries)])"
  define m2 where "m2 = (''Error fetching data: {}. Retrying ({}/{})...'',
                     [AExn RequestException, AInt (int (Suc (Suc 0))), AInt (int max_retries)])"
  define wa where "wa = log_event ''Warning'' m1 (send_request w)"
  define wb where "wb = log_event ''Warning'' m2 (send_request wa)"
  have na: "net e (requests_sent wa) = Transport_error" and nb: "net e (requests_sent wb) = Transport_error"
    using assms by (simp_all add: wa_def wb_def)
  have step0: "summary_attempts e c date total_dates completed_dates now 0 0 w
      = summary_attempts e c date total_dates completed_dates now (Suc 0) (Suc 0) wa"
    by (subst summary_attempts.simps) (simp add: assms(1) max_retries_def wa_def m1_def)
  have step1: "summary_attempts e c date total_dates completed_dates now (Suc 0) (Suc 0) wa
      = summary_attempts e c date total_dates completed_dates now (Suc (Suc 0)) (Suc (Suc 0)) wb"
    by (subst summary_attempts.simps) (simp add: na max_retries_def wb_def m2_def)
  have step2: "summary_attempts e c date total_dates completed_dates now (Suc (Suc 0)) (Suc (Suc 0)) wb
      = (Inr (Returned None None),
         update_requests_made_today c now
           (track c now (lit ''Processing'')
              (Some (''Error fetching data after {} attempts. Skipping this date: {}'', [AInt 3, AStr date])) True
              (log_event ''Error''
                 (''Error fetching data after {} attempts. Skipping this date: {}'', [AInt 3, AStr date])
                 (send_request wb))))"
    by (subst summary_attempts.simps) (simp add: nb max_retries_def)
  show ?thesis
    unfolding step0 step1 step2
    by (intro exI [of _ "log_event ''Error''
                 (''Error fetching data after {} attempts. Skipping this date: {}'', [AInt 3, AStr date])
                 (send_request wb)"]) (simp add: wa_def wb_def)
qed

text \<open>The daily loop of attempts when every answer is unclassified: the body ends without a return.\<close>

lemma summary_attempts_unclassified:
  assumes "net e (requests_sent w) = Response code1 text1 body1" "unclassified code1 text1"
    and "net e (Suc (requests_sent w)) = Response code2 text2 body2" "unclassified code2 text2"
    and "net e (Suc (Suc (requests_sent w))) = Response code3 text3 body3" "unclassified code3 text3"
  shows "\<exists>w1. summary_attempts e c date total_dates completed_dates now 0 0 w = (Inr Returned_None, w1)
         \<and> requests_sent w1 = requests_sent w + 3
         \<and> failed_requests w1 = failed_requests w
         \<and> length (api_calls w1) = length (api_calls w) + 3
         \<and> api_script_tracking w1 = api_script_tracking w"
proof -
  define wa where "wa = snd (log_api_call now (api_call_type_id c) code1 0 (send_request w))"
  define wb where "wb = snd (log_api_call now (api_call_type_id c) code2 0 (send_request wa))"
  define wc where "wc = snd (log_api_call now (api_call_type_id c) code3 0 (send_request wb))"
  have na: "net e (requests_sent wa) = Response code2 text2 body2"
    and nb: "net e (requests_sent wb) = Response code3 text3 body3"
    using assms by (simp_all add: wa_def wb_def)
  have step0: "summary_attempts e c date total_dates completed_dates now 0 0 w
      = summary_attempts e c date total_dates completed_dates now (Suc 0) 0 wa"
    using assms(2)
    by (subst summary_attempts.simps)
      (auto simp: assms(1) max_retries_def wa_def unclassified_def split: prod.splits)
  have step1: "summary_attempts e c date total_dates completed_dates now (Suc 0) 0 wa
      = summary_attempts e c date total_dates completed_dates now (Suc (Suc 0)) 0 wb"
    using assms(4)
    by (subst summary_attempts.simps)
      (auto simp: na max_retries_def wb_def unclassified_def split: prod.splits)
  have step2: "summary_attempts e c date total_dates completed_dates now (Suc (Suc 0)) 0 wb
      = summary_attempts e c date total_dates completed_dates now (Suc (Suc (Suc 0))) 0 wc"
    using assms(6)
    by (subst summary_attempts.simps)
      (auto simp: nb max_retries_def wc_def unclassified_def split: prod.splits)
  have step3: "summary_attempts e c date total_dates completed_dates now (Suc (Suc (Suc 0))) 0 wc
      = (Inr Returned_None, wc)"
    by (subst summary_attempts.simps) (simp add: max_retries_def)
  show ?thesis
    unfolding step0 step1 step2 step3
    by (intro exI [of _ wc]) (simp add: wa_def wb_def wc_def)
qed

text \<open>No call sends more than \<open>max_retries\<close> requests.\<close>

lemma summary_attempts_bound:
  "requests_sent (snd (summary_attempts e c date total_dates completed_dates now attempt retries w))
     \<le> requests_sent w + (max_retries - attempt)"
proof (induction e c date total_dates completed_dates now attempt retries w rule: summary_attempts.induct)
  case (1 e c date total_dates completed_dates now attempt retries w)
  show ?case
  proof (cases "attempt < max_retries")
    case False
    then show ?thesis by (subst summary_attempts.simps) simp
  next
    case True
    show ?thesis
    proof (cases "net e (requests_sent w)")
      case Transport_error
      show ?thesis
      proof (cases "attempt < max_retries - 1")
        case retry: True
        from "1.IH"(1) [OF \<open>attempt < max_retries\<close> Transport_error retry] True retry show ?thesis
          by (subst summary_attempts.simps) (simp add: Transport_error)
      next
        case last: False
        with True show ?thesis
          by (subst summary_attempts.simps) (simp add: Transport_error)
      qed
    next
      case (Response code answer body)
      obtain cid w1 where logged: "log_api_call now (api_call_type_id c) code retries (send_request w) = (cid, w1)"
        by (cases "log_api_call now (api_call_type_id c) code retries (send_request w)")
      from logged have sent: "requests_sent w1 = Suc (requests_sent w)"
        using log_api_call_frame(1) [of now "api_call_type_id c" code retries "send_request w"] by simp
      show ?thesis
      proof (cases "unclassified code answer")
        case True
        from True have c1: "code \<noteq> 200" and c2: "\<not> (code = 400 \<and> contains ''out the available range'' answer)"
          and c3: "code \<noteq> 404" and c4: "code \<noteq> 403" and c5: "\<not> 500 \<le> code"
          by (simp_all add: unclassified_def)
        from "1.IH"(2) [OF \<open>attempt < max_retries\<close> Response logged [symmetric] c1 c2 c3 c4 c5]
        have "requests_sent (snd (summary_attempts e c date total_dates completed_dates now (Suc attempt) retries w1))
            \<le> requests_sent w1 + (max_retries - Suc attempt)" .
        with \<open>attempt < max_retries\<close> sent c1 c2 c3 c4 c5 show ?thesis
          by (subst summary_attempts.simps) (auto simp: Response logged)
      next
        case False
        with \<open>attempt < max_retries\<close> sent show ?thesis
          by (subst summary_attempts.simps) (auto simp: Response logged unclassified_def)
      qed
    qed
  qed
qed

lemma has_prototype_cong:
  "api_call_types w' = api_call_types w \<Longrightarrow> has_prototype plat tname w' = has_prototype plat tname w"
  by (simp add: has_prototype_def)

lemma summary_call_exhausted:
  assumes "has_prototype (platform c) summary_api_call_type w"
    and "net e (requests_sent w) = Transport_error"
    and "net e (Suc (requests_sent w)) = Transport_error"
    and "net e (Suc (Suc (requests_sent w))) = Transport_error"
  shows "\<exists>w1. summary_call_openweather_api e c date total_dates completed_dates now w =
           (Inr (Returned None None),
            update_requests_made_today c now
              (track c now (lit ''Processing'')
                 (Some (''Error fetching data after {} attempts. Skipping this date: {}'',
                        [AInt 3, AStr date])) True w1))
         \<and> requests_sent w1 = requests_sent w + 3
         \<and> failed_requests w1 = failed_requests w
         \<and> api_calls w1 = api_calls w"
proof -
  from get_api_prototype_found [OF assms(1)] obtain prototype
    where found: "get_api_prototype (platform c) summary_api_call_type w = (Inr prototype, w)" ..
  let ?w = "log_event ''Request'' (''Calling API: OpenWeather daily summary for timestamp: {}'', [AStr date]) w"
  have "net e (requests_sent ?w) = Transport_error" "net e (Suc (requests_sent ?w)) = Transport_error"
    "net e (Suc (Suc (requests_sent ?w))) = Transport_error"
    using assms(2-4) by simp_all
  from summary_attempts_exhausted [OF this, of c date total_dates completed_dates now]
  show ?thesis
    by (simp add: summary_call_openweather_api_def found)
qed

lemma summary_call_unclassified:
  assumes "has_prototype (platform c) summary_api_call_type w"
    and "net e (requests_sent w) = Response code1 text1 body1" "unclassified code1 text1"
    and "net e (Suc (requests_sent w)) = Response code2 text2 body2" "unclassified code2 text2"
    and "net e (Suc (Suc (requests_sent w))) = Response code3 text3 body3" "unclassified code3 text3"
  shows "\<exists>w1. summary_call_openweather_api e c date total_dates completed_dates now w = (Inr Returned_None, w1)
         \<and> requests_sent w1 = requests_sent w + 3
         \<and> failed_requests w1 = failed_requests w
         \<and> length (api_calls w1) = length (api_calls w) + 3"
proof -
  from get_api_prototype_found [OF assms(1)] obtain prototype
    where found: "get_api_prototype (platform c) summary_api_call_type w = (Inr prototype, w)" ..
  let ?w = "log_event ''Request'' (''Calling API: OpenWeather daily summary for timestamp: {}'', [AStr date]) w"
  have "net e (requests_sent ?w) = Response code1 text1 body1"
    "net e (Suc (requests_sent ?w)) = Response code2 text2 body2"
    "net e (Suc (Suc (requests_sent ?w))) = Response code3 text3 body3"
    using assms(2,4,6) by simp_all
  from summary_attempts_unclassified [OF this(1) assms(3) this(2) assms(5) this(3) assms(7),
      of c date total_dates completed_dates now]
  show ?thesis
    by (auto simp: summary_call_openweather_api_def found)
qed

lemma summary_call_bound:
  "requests_sent (snd (summary_call_openweather_api e c date total_dates completed_dates now w))
     \<le> requests_sent w + 3"
proof (cases "get_api_prototype (platform c) summary_api_call_type w")
  case (Pair r w1)
  have same: "requests_sent w1 = requests_sent w"
    using Pair by (auto simp: get_api_prototype_def split: list.splits)
  show ?thesis
  proof (cases r)
    case (Inl x)
    with Pair same show ?thesis
      by (simp add: summary_call_openweather_api_def)
  next
    case (Inr prototype)
    from summary_attempts_bound [of e c date total_dates completed_dates now 0 0
        "log_event ''Request'' (''Calling API: OpenWeather daily summary for timestamp: {}'', [AStr date]) w1"]
    show ?thesis
      using Pair Inr same by (simp add: summary_call_openweather_api_def max_retries_def)
  qed
qed

lemma timemachine_call_transport_error:
  assumes "has_prototype (platform c) timemachine_api_call_type w"
    and "net e (requests_sent w) = Transport_error"
  shows "timemachine_call_openweather_api e c key total_timestamps completed_timestamps now w =
     critical_exit c now ''API Error'' (''API Error: {}'', [AExn RequestException])
       (send_request
          (log_event ''Request'' (''Calling API: OpenWeather timemachine for timestamp: {}'', [AJson key]) w))"
proof -
  from get_api_prototype_found [OF assms(1)] obtain prototype
    where found: "get_api_prototype (platform c) timemachine_api_call_type w = (Inr prototype, w)" ..
  show ?thesis
    by (simp add: timemachine_call_openweather_api_def found assms(2))
qed

lemma timemachine_call_unclassified:
  assumes "has_prototype (platform c) timemachine_api_call_type w"
    and "net e (requests_sent w) = Response code answer body"
    and "unclassified code answer"
  shows "\<exists>w1. timemachine_call_openweather_api e c key total_timestamps completed_timestamps now w =
           (Inr (Returned None (Some (Suc (length (api_calls w))))),
            update_requests_made_today c now
              (track c now (lit ''Processing'')
                 (Some (''API Error: Unhandled API error with status {}'', [AInt code])) True w1))
         \<and> requests_sent w1 = requests_sent w + 1
         \<and> failed_requests w1 = Suc (failed_requests w)
         \<and> api_calls w1 = api_calls w @
              [\<lparr>call_timestamp = now, call_type_id = api_call_type_id c, response_code = code, retry_count = 0\<rparr>]"
proof -
  from get_api_prototype_found [OF assms(1)] obtain prototype
    where found: "get_api_prototype (platform c) timemachine_api_call_type w = (Inr prototype, w)" ..
  from assms(3) have c1: "code \<noteq> 200" and c2: "\<not> (code = 400 \<and> contains ''out the available range'' answer)"
    and c3: "code \<noteq> 404" and c4: "code \<noteq> 403" and c5: "\<not> 500 \<le> code"
    by (simp_all add: unclassified_def)
  let ?w = "send_request (log_event ''Request''
              (''Calling API: OpenWeather timemachine for timestamp: {}'', [AJson key]) w)"
  obtain cid w2 where logged: "log_api_call now (api_call_type_id c) code 0 ?w = (cid, w2)"
    by (cases "log_api_call now (api_call_type_id c) code 0 ?w")
  then have cid: "cid = Suc (length (api_calls w))" and w2: "w2 = snd (log_api_call now (api_call_type_id c) code 0 ?w)"
    using log_api_call_frame(4) [of now "api_call_type_id c" code 0 ?w] by simp_all
  have call: "timemachine_call_openweather_api e c key total_timestamps completed_timestamps now w =
      (Inr (Returned None (Some cid)),
       update_requests_made_today c now
         (track c now (lit ''Processing'')
            (Some (''API Error: Unhandled API error with status {}'', [AInt code])) True
            (count_failed_request
               (log_event ''API Error: '' (''API Error: Unhandled API error with status {}'', [AInt code]) w2))))"
    using c1 c2 c3 c4 c5 by (auto simp: timemachine_call_openweather_api_def found assms(2) logged)
  show ?thesis
    unfolding call cid
    by (intro exI [of _ "count_failed_request
               (log_event ''API Error: '' (''API Error: Unhandled API error with status {}'', [AInt code]) w2)"])
      (simp add: w2)
qed

text \<open>The loop of \<^verbatim>\<open>run\<close> after a call: it goes on when the call returned a pair without data, and ends on an exception.\<close>

lemma summary_loop_skips:
  assumes "governor_gate c (clock e idx) w0 = (Inr (), w)"
    and "summary_call_openweather_api e c date total_dates idx (clock e idx) w = (Inr (Returned None cid), w1)"
  shows "summary_loop e c total_dates idx (date # rest) w0
     = summary_loop e c total_dates (Suc idx) rest (count_batch_call w1)"
  by (simp add: summary_process_key_def summary_validate_and_store_def assms)

lemma summary_loop_unpacks_None:
  assumes "governor_gate c (clock e idx) w0 = (Inr (), w)"
    and "summary_call_openweather_api e c date total_dates idx (clock e idx) w = (Inr Returned_None, w1)"
  shows "summary_loop e c total_dates idx (date # rest) w0 = (Inl TypeError, w1)"
  by (simp add: summary_process_key_def assms)

lemma timemachine_loop_skips:
  assumes "governor_gate c (clock e idx) w0 = (Inr (), w)"
    and "timemachine_call_openweather_api e c key total_timestamps idx (clock e idx) w
           = (Inr (Returned None cid), w1)"
  shows "timemachine_loop e c total_timestamps idx (key # keys) w0
     = timemachine_loop e c total_timestamps (Suc idx) keys (count_batch_call w1)"
  by (simp add: timemachine_process_key_def timemachine_validate_and_store_def assms)

lemma timemachine_loop_exits:
  assumes "governor_gate c (clock e idx) w0 = (Inr (), w)"
    and "timemachine_call_openweather_api e c key total_timestamps idx (clock e idx) w = (Inl x, w1)"
  shows "timemachine_loop e c total_timestamps idx (key # keys) w0 = (Inl x, w1)"
  by (simp add: timemachine_process_key_def assms)

text \<open>The governor's gate changes neither the calls logged nor the call types, and lets a quiet day pass.\<close>

lemma insert_tracking_log_frame [simp]:
  "requests_sent (insert_tracking_log now sn pl alt st reason force w) = requests_sent w"
  "failed_requests (insert_tracking_log now sn pl alt st reason force w) = failed_requests w"
  "api_calls (insert_tracking_log now sn pl alt st reason force w) = api_calls w"
  "api_call_types (insert_tracking_log now sn pl alt st reason force w) = api_call_types w"
  by (simp_all add: insert_tracking_log_def Let_def)

lemma update_tracking_types [simp]:
  "api_call_types (update_tracking k f w) = api_call_types w"
  by (simp add: update_tracking_def split: option.splits)

lemma check_daily_limit_reached_frame [simp]:
  "api_calls (snd (check_daily_limit_reached c now w)) = api_calls w"
  "api_call_types (snd (check_daily_limit_reached c now w)) = api_call_types w"
  "requests_sent (snd (check_daily_limit_reached c now w)) = requests_sent w"
  "failed_requests (snd (check_daily_limit_reached c now w)) = failed_requests w"
  by (simp_all add: check_daily_limit_reached_def Let_def)

lemma rate_limit_check_frame [simp]:
  "api_calls (rate_limit_check c now w) = api_calls w"
  "api_call_types (rate_limit_check c now w) = api_call_types w"
  "requests_sent (rate_limit_check c now w) = requests_sent w"
  "failed_requests (rate_limit_check c now w) = failed_requests w"
  by (simp_all add: rate_limit_check_def Let_def)

lemma check_failure_rate_frame [simp]:
  "api_calls (snd (check_failure_rate c now w)) = api_calls w"
  "api_call_types (snd (check_failure_rate c now w)) = api_call_types w"
  "requests_sent (snd (check_failure_rate c now w)) = requests_sent w"
  "failed_requests (snd (check_failure_rate c now w)) = failed_requests w"
  by (simp_all add: check_failure_rate_def Let_def)

lemma governor_gate_frame:
  "api_calls (snd (governor_gate c now w)) = api_calls w"
  "api_call_types (snd (governor_gate c now w)) = api_call_types w"
  "requests_sent (snd (governor_gate c now w)) = requests_sent w"
  "failed_requests (snd (governor_gate c now w)) = failed_requests w"
proof -
  obtain b1 w1 where d: "check_daily_limit_reached c now w = (b1, w1)"
    by (cases "check_daily_limit_reached c now w")
  obtain b2 w2 where f: "check_failure_rate c now (rate_limit_check c now w1) = (b2, w2)"
    by (cases "check_failure_rate c now (rate_limit_check c now w1)")
  have w1: "w1 = snd (check_daily_limit_reached c now w)" using d by simp
  have w2: "w2 = snd (check_failure_rate c now (rate_limit_check c now w1))" using f by simp
  have g: "snd (governor_gate c now w) = (if b1 then w1 else w2)"
    by (simp add: governor_gate_def d f split: bool.splits)
  show "api_calls (snd (governor_gate c now w)) = api_calls w"
    "api_call_types (snd (governor_gate c now w)) = api_call_types w"
    "requests_sent (snd (governor_gate c now w)) = requests_sent w"
    "failed_requests (snd (governor_gate c now w)) = failed_requests w"
    unfolding g by (simp_all add: w1 w2)
qed

lemma check_failure_rate_open_iff_aux:
  "fst (check_failure_rate c now w) \<Longrightarrow> 10 < failure_count c now w"
  by (simp add: check_failure_rate_def Let_def split: if_splits)

lemma fst_check_daily_limit_reached:
  "fst (check_daily_limit_reached c now w) = (daily_limit c \<le> int (requests_today c now w))"
  by (simp add: check_daily_limit_reached_def Let_def)

lemma governor_gate_quiet:
  assumes "api_calls w = []" and "0 < daily_limit c"
  shows "fst (governor_gate c now w) = Inr ()"
proof -
  obtain b1 w1 where d: "check_daily_limit_reached c now w = (b1, w1)"
    by (cases "check_daily_limit_reached c now w")
  obtain b2 w2 where f: "check_failure_rate c now (rate_limit_check c now w1) = (b2, w2)"
    by (cases "check_failure_rate c now (rate_limit_check c now w1)")
  have "requests_today c now w = 0"
    using assms(1) by (simp add: requests_today_def)
  with assms(2) fst_check_daily_limit_reached [of c now w] d have b1: "\<not> b1" by simp
  have w1: "w1 = snd (check_daily_limit_reached c now w)" using d by simp
  have "api_calls (rate_limit_check c now w1) = []"
    using assms(1) by (simp add: w1)
  then have "failure_count c now (rate_limit_check c now w1) = 0"
    by (simp add: failure_count_def calls_since_def)
  with check_failure_rate_open_iff_aux [of c now "rate_limit_check c now w1"] f have b2: "\<not> b2" by auto
  show ?thesis
    using b1 b2 by (simp add: governor_gate_def d f)
qed

end
